theory Spec2Isabelle
  imports Complex_Main
begin

section \<open>Data model of \<open>stellarphot/core.py\<close>\<close>

text \<open>
  Units. The schema uses \<open>u.deg\<close>, \<open>u.pix\<close> and \<open>u.s\<close>; the computed areas carry the square
  of a unit and a quotient by a column carries the inverse of its unit, so a unit is a
  named base unit or an integer power of a unit. Two units are equal when they are the
  same term.
\<close>

datatype phys_unit = BaseUnit string | UnitPow phys_unit int

definition u_deg :: phys_unit where "u_deg = BaseUnit ''deg''"
definition u_pix :: phys_unit where "u_pix = BaseUnit ''pix''"
definition u_s :: phys_unit where "u_s = BaseUnit ''s''"
definition u_adu :: phys_unit where "u_adu = BaseUnit ''adu''"
definition u_electron :: phys_unit where "u_electron = BaseUnit ''electron''"

text \<open>
  Columns of a table. A numeric column has an optional unit (\<open>None\<close> for a plain column,
  \<open>Some u\<close> for a quantity column) and its cells. A string column has no unit; its cells
  are stored in a numpy array of fixed width (dtype \<open><Uw\<close>), so it carries the width \<open>w\<close>,
  the greatest number of characters a cell can hold, and no cell of it is longer. A time
  column (\<open>astropy.time.Time\<close>) has one scale for all its entries; an entry is kept as
  the number of seconds since the origin of the Modified Julian Date, on days of 86400
  seconds (no leap seconds).

  The cells are real numbers: the floating point numbers of the code without rounding,
  infinities and NaN, and the integers of the \<open>night\<close> column among them. A table maps
  the names of its columns to the columns; the order of the columns is not kept. In a
  table of astropy all columns have the same number of rows, so the row-wise arithmetic
  below never meets columns of different lengths.
\<close>

datatype column =
    Column "phys_unit option" "real list"
  | StrColumn nat "string list"
  | TimeColumn string "real list"

type_synonym table = "string \<rightharpoonup> column"

text \<open>The exceptions of the module, with the data their messages are built from.\<close>

datatype message =
    WrongUnit string phys_unit "phys_unit option"
      \<comment> \<open>\<open>data['c'] is of wrong unit (should be u but reported as v)\<close>\<close>
  | MissingFromInput string
      \<comment> \<open>\<open>data['c'] is missing from input data.\<close>\<close>
  | WrongTimeScale string
      \<comment> \<open>\<open>data['date-obs'] astropy.time.Time must have scale='utc', not 's'.\<close>\<close>
  | NotTimeColumn
      \<comment> \<open>\<open>data['date-obs'] isn't column of astropy.time.Time entries.\<close>\<close>
  | InconsistentUnits string string "phys_unit option" "phys_unit option"
      \<comment> \<open>\<open>data['c'] has inconsistent units with data['c0'] (should be u but it's v).\<close>\<close>
  | ComputedExists string
      \<comment> \<open>\<open>Computed column 'c' already exist in data. ...\<close>\<close>
  | ShouldNeverHappen string
      \<comment> \<open>\<open>Trying to compute column (c). This should never happen.\<close>\<close>
  | CouldNotConvert string
      \<comment> \<open>numpy's \<open>could not convert string to float: 's'\<close>\<close>

datatype error =
    AttributeError
  | KeyError string
  | IndexError
  | TypeError
  | UnitConversionError
  | ValueError message

text \<open>\<open>data[name]\<close>: a missing column raises \<open>KeyError\<close>.\<close>

definition getcol :: "table \<Rightarrow> string \<Rightarrow> error + column" where
  "getcol data name = (case data name of None \<Rightarrow> Inl (KeyError name) | Some c \<Rightarrow> Inr c)"

text \<open>
  \<open>col.unit\<close>: the unit of a numeric column, \<open>None\<close> for a string column; a time column
  has no such attribute.
\<close>

fun col_unit :: "column \<Rightarrow> error + phys_unit option" where
  "col_unit (Column u xs) = Inr u"
| "col_unit (StrColumn w xs) = Inr None"
| "col_unit (TimeColumn sc ts) = Inl AttributeError"

text \<open>\<open>col.value\<close> used in arithmetic: only a numeric column has numbers to give.\<close>

fun col_value :: "column \<Rightarrow> error + real list" where
  "col_value (Column u xs) = Inr xs"
| "col_value (StrColumn w xs) = Inl TypeError"
| "col_value (TimeColumn sc ts) = Inl TypeError"

record quantity =
  qvalue :: real
  qunit :: phys_unit

record camera =
  gain :: quantity
  read_noise :: quantity
  dark_current :: quantity

text \<open>The observatory: longitude and latitude in degrees.\<close>

record earth_location =
  lon :: real
  lat :: real

section \<open>\<open>BaseEnhancedTable.__init__\<close>\<close>

text \<open>
  The table description is a dictionary from column name to required unit or \<open>None\<close>,
  visited in insertion order. The loop looks only at the entries whose unit is not
  \<open>None\<close>: for those, a missing column (\<open>KeyError\<close> caught) and a unit that differs are
  both a \<open>ValueError\<close>. Then the data become the table (\<open>QTable.__init__\<close> checks no
  column). The two \<open>TypeError\<close> branches are for a description that is no dictionary and
  for data that are no table, which the types of the arguments exclude here.
\<close>

fun check_description :: "(string \<times> phys_unit option) list \<Rightarrow> table \<Rightarrow> error + unit" where
  "check_description [] data = Inr ()"
| "check_description ((this_col, None) # rest) data = check_description rest data"
| "check_description ((this_col, Some this_unit) # rest) data =
     (case data this_col of
        None \<Rightarrow> Inl (ValueError (MissingFromInput this_col))
      | Some c \<Rightarrow>
          (case col_unit c of
             Inl e \<Rightarrow> Inl e
           | Inr cu \<Rightarrow>
               if cu \<noteq> Some this_unit
               then Inl (ValueError (WrongUnit this_col this_unit cu))
               else check_description rest data))"

definition BaseEnhancedTable_init :: "(string \<times> phys_unit option) list \<Rightarrow> table \<Rightarrow> error + table" where
  "BaseEnhancedTable_init table_description data =
     (case check_description table_description data of
        Inl e \<Rightarrow> Inl e
      | Inr _ \<Rightarrow> Inr data)"

section \<open>\<open>PhotometryData\<close>\<close>

definition phot_descript :: "(string \<times> phys_unit option) list" where
  "phot_descript =
     [(''star_id'', None),
      (''ra'', Some u_deg),
      (''dec'', Some u_deg),
      (''xcenter'', Some u_pix),
      (''ycenter'', Some u_pix),
      (''fwhm_x'', Some u_pix),
      (''fwhm_y'', Some u_pix),
      (''width'', Some u_pix),
      (''aperture'', Some u_pix),
      (''annulus_inner'', Some u_pix),
      (''annulus_outer'', Some u_pix),
      (''aperture_sum'', None),
      (''annulus_sum'', None),
      (''sky_per_pix_avg'', None),
      (''sky_per_pix_med'', None),
      (''sky_per_pix_std'', None),
      (''aperture_net_cnts'', None),
      (''noise'', None),
      (''exposure'', Some u_s),
      (''date-obs'', None),
      (''airmass'', None),
      (''passband'', None),
      (''file'', None)]"

definition counts_columns :: "string list" where
  "counts_columns =
     [''aperture_sum'', ''annulus_sum'', ''sky_per_pix_avg'', ''sky_per_pix_med'',
      ''sky_per_pix_std'', ''aperture_net_cnts'', ''noise'']"

definition computed_columns :: "string list" where
  "computed_columns =
     [''aperture_area'', ''annulus_area'', ''snr'', ''bjd'', ''night'', ''mag_inst'',
      ''mag_error'']"

subsection \<open>The check of the time column\<close>

text \<open>
  \<open>data['date-obs'][0].scale != 'utc'\<close>: the column must exist (\<open>KeyError\<close>) and have a
  first entry (\<open>IndexError\<close>); an entry that is no \<open>Time\<close> has no \<open>scale\<close>, and the
  \<open>AttributeError\<close> is turned into the second \<open>ValueError\<close>.
\<close>

definition check_date_obs :: "table \<Rightarrow> error + unit" where
  "check_date_obs data =
     (case data ''date-obs'' of
        None \<Rightarrow> Inl (KeyError ''date-obs'')
      | Some (TimeColumn sc ts) \<Rightarrow>
          if ts = [] then Inl IndexError
          else if sc \<noteq> ''utc'' then Inl (ValueError (WrongTimeScale sc))
          else Inr ()
      | Some (Column u xs) \<Rightarrow>
          if xs = [] then Inl IndexError else Inl (ValueError NotTimeColumn)
      | Some (StrColumn w xs) \<Rightarrow>
          if xs = [] then Inl IndexError else Inl (ValueError NotTimeColumn))"

subsection \<open>The check of the counts columns\<close>

text \<open>
  The unit of the first counts column is the reference; the loop runs over the other six
  in order and raises at the first whose unit differs from the reference.
\<close>

fun check_counts_loop :: "string \<Rightarrow> phys_unit option \<Rightarrow> string list \<Rightarrow> table \<Rightarrow> error + unit" where
  "check_counts_loop c0 cnts_unit [] data = Inr ()"
| "check_counts_loop c0 cnts_unit (this_col # rest) data =
     (case data this_col of
        None \<Rightarrow> Inl (KeyError this_col)
      | Some c \<Rightarrow>
          (case col_unit c of
             Inl e \<Rightarrow> Inl e
           | Inr cu \<Rightarrow>
               if cu \<noteq> cnts_unit
               then Inl (ValueError (InconsistentUnits this_col c0 cnts_unit cu))
               else check_counts_loop c0 cnts_unit rest data))"

definition check_counts :: "table \<Rightarrow> error + unit" where
  "check_counts data =
     (case data (hd counts_columns) of
        None \<Rightarrow> Inl (KeyError (hd counts_columns))
      | Some c0 \<Rightarrow>
          (case col_unit c0 of
             Inl e \<Rightarrow> Inl e
           | Inr cnts_unit \<Rightarrow>
               check_counts_loop (hd counts_columns) cnts_unit (tl counts_columns) data))"

subsection \<open>The computed columns\<close>

text \<open>Sequencing of steps that may raise: the first exception ends the computation.\<close>

definition and_then :: "error + 'a \<Rightarrow> ('a \<Rightarrow> error + 'b) \<Rightarrow> error + 'b" where
  "and_then m f = (case m of Inl e \<Rightarrow> Inl e | Inr x \<Rightarrow> f x)"

definition get_values :: "table \<Rightarrow> string \<Rightarrow> error + real list" where
  "get_values self name = and_then (getcol self name) col_value"

text \<open>Python's \<open>int(x)\<close> and numpy's \<open>dtype=int\<close> on a float: truncation toward zero.\<close>

definition py_int :: "real \<Rightarrow> int" where
  "py_int x = (if 0 \<le> x then \<lfloor>x\<rfloor> else \<lceil>x\<rceil>)"

text \<open>
  \<open>np.pi * self['aperture']**2\<close> and
  \<open>np.pi * (self['annulus_outer']**2 - self['annulus_inner']**2)\<close>: arithmetic on
  quantity columns, the unit squared; a difference needs equal units.
\<close>

definition aperture_area :: "table \<Rightarrow> error + column" where
  "aperture_area self =
     and_then (getcol self ''aperture'') (\<lambda>c.
       case c of
         Column u xs \<Rightarrow> Inr (Column (map_option (\<lambda>v. UnitPow v 2) u) (map (\<lambda>x. pi * x\<^sup>2) xs))
       | _ \<Rightarrow> Inl TypeError)"

definition annulus_area :: "table \<Rightarrow> error + column" where
  "annulus_area self =
     and_then (getcol self ''annulus_outer'') (\<lambda>co.
     and_then (getcol self ''annulus_inner'') (\<lambda>ci.
       case (co, ci) of
         (Column uo xo, Column ui xi) \<Rightarrow>
           if uo \<noteq> ui then Inl UnitConversionError
           else Inr (Column (map_option (\<lambda>v. UnitPow v 2) uo)
                       (map2 (\<lambda>a b. pi * (a\<^sup>2 - b\<^sup>2)) xo xi))
       | _ \<Rightarrow> Inl TypeError))"

text \<open>
  \<open>np.sqrt(self.camera.gain.value) * self['aperture_net_cnts'].value / self['noise'].value\<close>
\<close>

definition snr :: "camera \<Rightarrow> table \<Rightarrow> error + column" where
  "snr cam self =
     and_then (get_values self ''aperture_net_cnts'') (\<lambda>cnts.
     and_then (get_values self ''noise'') (\<lambda>noise.
       Inr (Column None (map2 (\<lambda>c n. sqrt (qvalue (gain cam)) * c / n) cnts noise))))"

text \<open>
  \<open>-2.5 * np.log10(self.camera.gain.value * self['aperture_net_cnts'].value /
  self['exposure'].value)\<close>
\<close>

definition mag_inst :: "camera \<Rightarrow> table \<Rightarrow> error + column" where
  "mag_inst cam self =
     and_then (get_values self ''aperture_net_cnts'') (\<lambda>cnts.
     and_then (get_values self ''exposure'') (\<lambda>exposure.
       Inr (Column None
              (map2 (\<lambda>c e. - 2.5 * log 10 (qvalue (gain cam) * c / e)) cnts exposure))))"

text \<open>\<open>1.085736205 / self['snr']\<close>: the quotient of a number by a column.\<close>

definition mag_error :: "table \<Rightarrow> error + column" where
  "mag_error self =
     and_then (getcol self ''snr'') (\<lambda>c.
       case c of
         Column u xs \<Rightarrow>
           Inr (Column (map_option (\<lambda>v. UnitPow v (- 1)) u) (map (\<lambda>x. 1.085736205 / x) xs))
       | _ \<Rightarrow> Inl TypeError)"

subsubsection \<open>The night\<close>

text \<open>
  \<open>Time.ymdhms\<close> of a time given in seconds: the hour and the minute are integers, the
  second keeps its fraction.
\<close>

definition ymdhms_hour :: "real \<Rightarrow> int" where
  "ymdhms_hour t = \<lfloor>t / 3600\<rfloor> mod 24"

definition ymdhms_minute :: "real \<Rightarrow> int" where
  "ymdhms_minute t = \<lfloor>t / 60\<rfloor> mod 60"

definition ymdhms_second :: "real \<Rightarrow> real" where
  "ymdhms_second t = t - 60 * of_int \<lfloor>t / 60\<rfloor>"

definition hr_offset :: "earth_location \<Rightarrow> int" where
  "hr_offset observatory = py_int (lon observatory / 15)"

text \<open>
  One row of the \<open>night\<close> column: the shift is computed from the local time, added to
  the time of the observation, and the Modified Julian Date of the sum is truncated.
\<close>

definition night_of :: "earth_location \<Rightarrow> real \<Rightarrow> int" where
  "night_of observatory date_obs =
     (let LocalTime = date_obs + of_int (hr_offset observatory) * 3600;
          hr = ymdhms_hour LocalTime;
          shift_hr = (if hr < 12 then hr + 12 else hr - 12);
          delta = - of_int shift_hr * 3600 - of_int (ymdhms_minute LocalTime) * 60
                  - ymdhms_second LocalTime
      in py_int ((date_obs + delta) / 86400))"

text \<open>\<open>Time(self['date-obs'])\<close>: the entries of a time column.\<close>

definition get_times :: "table \<Rightarrow> error + real list" where
  "get_times self =
     and_then (getcol self ''date-obs'') (\<lambda>c.
       case c of TimeColumn sc ts \<Rightarrow> Inr ts | _ \<Rightarrow> Inl TypeError)"

definition night :: "earth_location \<Rightarrow> table \<Rightarrow> error + column" where
  "night observatory self =
     and_then (get_times self) (\<lambda>ts.
       Inr (Column None (map (\<lambda>t. of_int (night_of observatory t)) ts)))"

subsubsection \<open>The barycentric Julian date\<close>

text \<open>
  What astropy and numpy compute is taken as parameters. \<open>add_bjd_col\<close> calls astropy for
  the conversion of a time to the TDB scale and for the light travel time to the
  barycentre: \<open>to_tdb\<close> maps an entry of the time column to TDB; \<open>light_travel_time\<close>
  takes the observatory, the times, the right ascensions and the declinations (it builds
  the \<open>SkyCoord\<close>) and may raise.

  \<open>rename_cells\<close> is for \<open>update_passbands\<close>, when the \<open>passband\<close> column holds no strings:
  \<open>rename_cells column key name\<close> is what numpy and astropy make of
  \<open>mask = column == key\<close> followed by \<open>column[mask] = name\<close> on a column of numbers, of
  quantities or of times, the column after the assignment or the exception raised. For a
  column of floats the comparison with a string selects no cell, and the assignment
  still converts the name to a float before it writes: when the name is no number,
  numpy raises \<open>ValueError\<close>.
\<close>

record astro =
  to_tdb :: "real \<Rightarrow> real"
  light_travel_time :: "earth_location \<Rightarrow> real list \<Rightarrow> real list \<Rightarrow> real list \<Rightarrow> error + real list"
  rename_cells :: "column \<Rightarrow> string \<Rightarrow> string \<Rightarrow> error + column"

definition add_bjd_col :: "astro \<Rightarrow> earth_location \<Rightarrow> table \<Rightarrow> error + column" where
  "add_bjd_col A observatory self =
     and_then (get_times self) (\<lambda>times.
     and_then (get_values self ''ra'') (\<lambda>ra.
     and_then (get_values self ''dec'') (\<lambda>dec.
     and_then (light_travel_time A observatory times ra dec) (\<lambda>ltt_bary.
     and_then (get_values self ''exposure'') (\<lambda>exposure.
       Inr (TimeColumn ''tdb''
              (map2 (\<lambda>time_barycenter e. time_barycenter + e / 2)
                 (map2 (\<lambda>t l. to_tdb A t + l) times ltt_bary) exposure)))))))"

subsubsection \<open>The loop over the computed columns\<close>

text \<open>
  The \<open>match\<close> statement: each case assigns one column of the table. The case
  \<open>'mag_error'\<close> assigns to \<open>self['mag_inst']\<close>.
\<close>

definition compute_column :: "astro \<Rightarrow> earth_location \<Rightarrow> camera \<Rightarrow> string \<Rightarrow> table \<Rightarrow> error + table" where
  "compute_column A observatory cam this_col self =
     (if this_col = ''aperture_area'' then
        and_then (aperture_area self) (\<lambda>c. Inr (self(''aperture_area'' \<mapsto> c)))
      else if this_col = ''annulus_area'' then
        and_then (annulus_area self) (\<lambda>c. Inr (self(''annulus_area'' \<mapsto> c)))
      else if this_col = ''snr'' then
        and_then (snr cam self) (\<lambda>c. Inr (self(''snr'' \<mapsto> c)))
      else if this_col = ''bjd'' then
        and_then (add_bjd_col A observatory self) (\<lambda>c. Inr (self(''bjd'' \<mapsto> c)))
      else if this_col = ''night'' then
        and_then (night observatory self) (\<lambda>c. Inr (self(''night'' \<mapsto> c)))
      else if this_col = ''mag_inst'' then
        and_then (mag_inst cam self) (\<lambda>c. Inr (self(''mag_inst'' \<mapsto> c)))
      else if this_col = ''mag_error'' then
        and_then (mag_error self) (\<lambda>c. Inr (self(''mag_inst'' \<mapsto> c)))
      else Inl (ValueError (ShouldNeverHappen this_col)))"

fun compute_columns :: "astro \<Rightarrow> earth_location \<Rightarrow> camera \<Rightarrow> bool \<Rightarrow> string list \<Rightarrow> table \<Rightarrow> error + table" where
  "compute_columns A observatory cam retain_user_computed [] self = Inr self"
| "compute_columns A observatory cam retain_user_computed (this_col # rest) self =
     (if self this_col \<noteq> None then
        (if \<not> retain_user_computed then Inl (ValueError (ComputedExists this_col))
         else compute_columns A observatory cam retain_user_computed rest self)
      else
        and_then (compute_column A observatory cam this_col self)
          (compute_columns A observatory cam retain_user_computed rest))"

subsection \<open>\<open>update_passbands\<close>\<close>

text \<open>
  For each entry of the passband map, in order:
  \<open>mask = self['passband'] == orig_pb\<close> and \<open>self['passband'][mask] = aavso_pb\<close>.
  In a string column the cells equal to the key are selected, and the new name is
  written into them cut to the width of the column (the array has a fixed width; a name
  that is too long loses its last characters). A string column of Python objects
  behaves as one so wide that no name is cut. For a column that holds no strings the
  two statements are the parameter \<open>rename_cells\<close>.
\<close>

fun update_passbands :: "astro \<Rightarrow> (string \<times> string) list \<Rightarrow> table \<Rightarrow> error + table" where
  "update_passbands A [] self = Inr self"
| "update_passbands A ((orig_pb, aavso_pb) # rest) self =
     and_then (getcol self ''passband'') (\<lambda>c.
       case c of
         StrColumn w xs \<Rightarrow>
           update_passbands A rest
             (self(''passband'' \<mapsto>
                StrColumn w (map (\<lambda>p. if p = orig_pb then take w aavso_pb else p) xs)))
       | _ \<Rightarrow>
           and_then (rename_cells A c orig_pb aavso_pb) (\<lambda>renamed.
             update_passbands A rest (self(''passband'' \<mapsto> renamed))))"

subsection \<open>\<open>PhotometryData.__init__\<close>\<close>

text \<open>
  The instance: the table with its attributes. The constructor copies the observatory,
  the camera and the passband map (\<open>None\<close> has no \<open>copy\<close>), checks the time column and the
  counts columns, validates against \<open>phot_descript\<close>, computes the columns and, as the
  passband map is not \<open>None\<close> there, renames the passbands.
\<close>

record photometry_data =
  pd_observatory :: earth_location
  pd_camera :: camera
  pd_passband_map :: "(string \<times> string) list"
  pd_table :: table

definition PhotometryData_init ::
  "astro \<Rightarrow> earth_location \<Rightarrow> camera \<Rightarrow> table \<Rightarrow> (string \<times> string) list option \<Rightarrow> bool
   \<Rightarrow> error + photometry_data" where
  "PhotometryData_init A observatory cam data passband_map retain_user_computed =
     (case passband_map of
        None \<Rightarrow> Inl AttributeError
      | Some pm \<Rightarrow>
          and_then (check_date_obs data) (\<lambda>_.
          and_then (check_counts data) (\<lambda>_.
          and_then (BaseEnhancedTable_init phot_descript data) (\<lambda>self.
          and_then (compute_columns A observatory cam retain_user_computed computed_columns self)
            (\<lambda>self.
          and_then (update_passbands A pm self) (\<lambda>self.
            Inr \<lparr>pd_observatory = observatory, pd_camera = cam, pd_passband_map = pm,
                 pd_table = self\<rparr>))))))"

section \<open>\<open>RadialProfile\<close> in \<open>gui_tools/seeing_profile_functions.py\<close>\<close>

text \<open>
  What \<open>find_hwhm\<close> reads of a profile: the average radius of each radial bin and the
  scaled intensity of each bin, as \<open>profile\<close> left them.
\<close>

record RadialProfile =
  ravg :: "real list"
  scaled_profile :: "real list"

text \<open>
  Indexing of an array by an integer: a negative index counts from the end, an index out
  of range raises.
\<close>

definition np_index :: "'a list \<Rightarrow> int \<Rightarrow> error + 'a" where
  "np_index xs i =
     (if 0 \<le> i \<and> i < int (length xs) then Inr (xs ! nat i)
      else if i < 0 \<and> - int (length xs) \<le> i then Inr (xs ! nat (int (length xs) + i))
      else Inl IndexError)"

text \<open>
  \<open>np.arange(len(mask))[mask][0]\<close>: the index of the first cell that satisfies the test;
  with no such cell the selection is empty and its first element does not exist.
\<close>

fun first_index :: "('a \<Rightarrow> bool) \<Rightarrow> 'a list \<Rightarrow> nat option" where
  "first_index P [] = None"
| "first_index P (x # xs) = (if P x then Some 0 else map_option Suc (first_index P xs))"

definition find_hwhm :: "RadialProfile \<Rightarrow> error + real" where
  "find_hwhm self =
     (let r = ravg self; intensity = scaled_profile self
      in case first_index (\<lambda>v. v < 0.5) intensity of
           None \<Rightarrow> Inl IndexError
         | Some half_index \<Rightarrow>
             (let before_half = int half_index - 1
              in and_then (np_index r before_half) (\<lambda>r_more.
                 and_then (np_index r (int half_index)) (\<lambda>r_less.
                 and_then (np_index intensity before_half) (\<lambda>I_more.
                 and_then (np_index intensity (int half_index)) (\<lambda>I_less.
                   let I_half = 0.5
                   in Inr (r_less - (I_less - I_half) / (I_less - I_more) * (r_less - r_more))))))))"

text \<open>
  \<open>np.round\<close>: to the nearest integer, a tie to the even one. The result is a float with
  an integer value; it is kept as the integer.
\<close>

definition np_round :: "real \<Rightarrow> int" where
  "np_round x =
     (let f = \<lfloor>x\<rfloor>; d = x - of_int f
      in if d < 1 / 2 then f else if 1 / 2 < d then f + 1 else if even f then f else f + 1)"

definition HWHM :: "RadialProfile \<Rightarrow> error + real" where
  "HWHM self = find_hwhm self"

text \<open>\<open>int(np.round(2 * self.HWHM))\<close>\<close>

definition FWHM :: "RadialProfile \<Rightarrow> error + int" where
  "FWHM self = and_then (HWHM self) (\<lambda>h. Inr (np_round (2 * h)))"

text \<open>
  In \<open>show_event\<close>, after a click on a star:
  \<open>aperture_radius = np.round(1.5 * 2 * rad_prof.HWHM, 0)\<close>
\<close>

definition aperture_radius :: "RadialProfile \<Rightarrow> error + int" where
  "aperture_radius rad_prof = and_then (HWHM rad_prof) (\<lambda>h. Inr (np_round (1.5 * 2 * h)))"

section \<open>The specification's wording, for comparison\<close>

text \<open>
  Three definitions that follow the words of the specification and not the code. They are
  compared with the definitions above.

  The hour offset of the night as \<open>floor(longitude / 15)\<close>, and the night computed with
  that offset.
\<close>

definition spec_hr_offset :: "earth_location \<Rightarrow> int" where
  "spec_hr_offset observatory = \<lfloor>lon observatory / 15\<rfloor>"

definition spec_night_of :: "earth_location \<Rightarrow> real \<Rightarrow> int" where
  "spec_night_of observatory date_obs =
     (let LocalTime = date_obs + of_int (spec_hr_offset observatory) * 3600;
          hr = ymdhms_hour LocalTime;
          shift_hr = (if hr < 12 then hr + 12 else hr - 12);
          delta = - of_int shift_hr * 3600 - of_int (ymdhms_minute LocalTime) * 60
                  - ymdhms_second LocalTime
      in py_int ((date_obs + delta) / 86400))"

text \<open>The recommended aperture radius as \<open>round(1.5 * FWHM)\<close>, with the rounded FWHM.\<close>

definition spec_aperture_radius :: "RadialProfile \<Rightarrow> error + int" where
  "spec_aperture_radius rad_prof =
     and_then (FWHM rad_prof) (\<lambda>f. Inr (np_round (1.5 * of_int f)))"

text \<open>
  A second construction from the table of a first one, with the same observatory, camera
  and flags.
\<close>

definition PhotometryData_again ::
  "astro \<Rightarrow> earth_location \<Rightarrow> camera \<Rightarrow> table \<Rightarrow> (string \<times> string) list option \<Rightarrow> bool
   \<Rightarrow> error + photometry_data" where
  "PhotometryData_again A observatory cam data passband_map retain_user_computed =
     and_then (PhotometryData_init A observatory cam data passband_map retain_user_computed)
       (\<lambda>first.
          PhotometryData_init A observatory cam (pd_table first) passband_map
            retain_user_computed)"

section \<open>Inputs of the examples\<close>

text \<open>
  A table of one row with every column of \<open>phot_descript\<close>: gain 1, 100 net counts, noise
  10, exposure 1 s, observed at 23:00 UTC of MJD 60000.
\<close>

definition example_table :: table where
  "example_table = map_of
     [(''star_id'', Column None [1]),
      (''ra'', Column (Some u_deg) [10]),
      (''dec'', Column (Some u_deg) [20]),
      (''xcenter'', Column (Some u_pix) [100]),
      (''ycenter'', Column (Some u_pix) [200]),
      (''fwhm_x'', Column (Some u_pix) [4]),
      (''fwhm_y'', Column (Some u_pix) [4]),
      (''width'', Column (Some u_pix) [4]),
      (''aperture'', Column (Some u_pix) [5]),
      (''annulus_inner'', Column (Some u_pix) [10]),
      (''annulus_outer'', Column (Some u_pix) [15]),
      (''aperture_sum'', Column (Some u_adu) [150]),
      (''annulus_sum'', Column (Some u_adu) [200]),
      (''sky_per_pix_avg'', Column (Some u_adu) [1]),
      (''sky_per_pix_med'', Column (Some u_adu) [1]),
      (''sky_per_pix_std'', Column (Some u_adu) [1]),
      (''aperture_net_cnts'', Column (Some u_adu) [100]),
      (''noise'', Column (Some u_adu) [10]),
      (''exposure'', Column (Some u_s) [1]),
      (''date-obs'', TimeColumn ''utc'' [5184082800]),
      (''airmass'', Column None [1.2]),
      (''passband'', StrColumn 1 [''B'']),
      (''file'', StrColumn 9 [''image.fit''])]"

definition example_camera :: camera where
  "example_camera =
     \<lparr>gain = \<lparr>qvalue = 1, qunit = BaseUnit ''electron / adu''\<rparr>,
      read_noise = \<lparr>qvalue = 1, qunit = u_electron\<rparr>,
      dark_current = \<lparr>qvalue = 0.01, qunit = BaseUnit ''electron / s''\<rparr>\<rparr>"

definition example_observatory :: earth_location where
  "example_observatory = \<lparr>lon = 0, lat = 45\<rparr>"

text \<open>A western observatory, at longitude -100 degrees.\<close>

definition western_observatory :: earth_location where
  "western_observatory = \<lparr>lon = - 100, lat = 30\<rparr>"

text \<open>
  Stand-ins for the parameters, enough to run the constructor: a constant offset to TDB,
  no light travel time, and every passband name taken to be no number, no quantity and no
  time, so that the assignment raises (numpy's \<open>ValueError\<close> for a column of numbers,
  astropy's \<open>TypeError\<close> for a quantity column and its \<open>ValueError\<close> for a time column).
\<close>

definition example_astro :: astro where
  "example_astro =
     \<lparr>to_tdb = (\<lambda>t. t + 69.184),
      light_travel_time = (\<lambda>place times ra dec. Inr (map (\<lambda>t. 0) times)),
      rename_cells = (\<lambda>c key name.
        case c of
          Column None xs \<Rightarrow> Inl (ValueError (CouldNotConvert name))
        | Column (Some u) xs \<Rightarrow> Inl TypeError
        | StrColumn w xs \<Rightarrow> Inr c
        | TimeColumn sc ts \<Rightarrow> Inl (ValueError (CouldNotConvert name)))\<rparr>"

text \<open>The table the constructor builds from \<open>example_table\<close>.\<close>

definition example_result_table :: table where
  "example_result_table =
     example_table
       (''aperture_area'' \<mapsto> Column (Some (UnitPow u_pix 2)) [pi * 25],
        ''annulus_area'' \<mapsto> Column (Some (UnitPow u_pix 2)) [pi * 125],
        ''snr'' \<mapsto> Column None [10],
        ''bjd'' \<mapsto> TimeColumn ''tdb'' [5184082869.684],
        ''night'' \<mapsto> Column None [60000],
        ''mag_inst'' \<mapsto> Column None [0.1085736205])"

definition example_result :: photometry_data where
  "example_result =
     \<lparr>pd_observatory = example_observatory, pd_camera = example_camera,
      pd_passband_map = [], pd_table = example_result_table\<rparr>"

text \<open>
  A passband map that renames the passband of the example, and what the constructor
  builds with it.
\<close>

definition example_passband_map :: "(string \<times> string) list" where
  "example_passband_map = [(''B'', ''V'')]"

definition example_result_renamed :: photometry_data where
  "example_result_renamed =
     \<lparr>pd_observatory = example_observatory, pd_camera = example_camera,
      pd_passband_map = example_passband_map,
      pd_table = example_result_table(''passband'' \<mapsto> StrColumn 1 [''V''])\<rparr>"

text \<open>
  A passband map whose keys and new names are disjoint, with a new name of two
  characters: cut to the width 1 of the example's passband column it is the key \<open>S\<close>.
\<close>

definition cutting_passband_map :: "(string \<times> string) list" where
  "cutting_passband_map = [(''S'', ''X''), (''B'', ''SB'')]"

text \<open>The example without its \<open>star_id\<close> column.\<close>

definition example_table_no_star_id :: table where
  "example_table_no_star_id = example_table(''star_id'' := None)"

text \<open>The example with \<open>aperture_sum\<close> in electrons and the other six counts columns in adu.\<close>

definition example_table_odd_aperture_sum :: table where
  "example_table_odd_aperture_sum =
     example_table(''aperture_sum'' \<mapsto> Column (Some u_electron) [150])"

text \<open>The example with \<open>noise\<close> in electrons and the other six counts columns in adu.\<close>

definition example_table_odd_noise :: table where
  "example_table_odd_noise = example_table(''noise'' \<mapsto> Column (Some u_electron) [10])"

text \<open>The example with its times on the TAI scale.\<close>

definition example_table_tai :: table where
  "example_table_tai = example_table(''date-obs'' \<mapsto> TimeColumn ''tai'' [5184082800])"

text \<open>
  The profile of the specification's example: scaled intensity 1.0 at radius 0, 0.6 at
  radius 3 and 0.4 at radius 4.
\<close>

definition example_profile :: RadialProfile where
  "example_profile = \<lparr>ravg = [0, 3, 4], scaled_profile = [1, 0.6, 0.4]\<rparr>"

text \<open>A profile whose half width at half maximum is 3.2.\<close>

definition steep_profile :: RadialProfile where
  "steep_profile = \<lparr>ravg = [0, 3, 4], scaled_profile = [1, 0.6, 0.1]\<rparr>"

section \<open>Auxiliary facts\<close>

subsection \<open>Sequencing\<close>

lemma and_then_Inr: "and_then m f = Inr y \<longleftrightarrow> (\<exists>x. m = Inr x \<and> f x = Inr y)"
  by (cases m) (simp_all add: and_then_def)

lemma and_then_Inr_simp [simp]: "and_then (Inr x) f = f x"
  by (simp add: and_then_def)

lemma and_then_Inl_simp [simp]: "and_then (Inl e) f = Inl e"
  by (simp add: and_then_def)

subsection \<open>Indexing and the first bin below a half\<close>

lemma first_index_Some:
  "first_index P xs = Some i \<Longrightarrow> i < length xs \<and> P (xs ! i) \<and> (\<forall>j<i. \<not> P (xs ! j))"
proof (induction xs arbitrary: i)
  case Nil
  then show ?case by simp
next
  case (Cons x xs)
  show ?case
  proof (cases "P x")
    case True
    with Cons.prems show ?thesis by simp
  next
    case False
    with Cons.prems obtain k where k: "first_index P xs = Some k" "i = Suc k"
      by auto
    from Cons.IH [OF k(1)] have ih: "k < length xs" "P (xs ! k)" "\<forall>j<k. \<not> P (xs ! j)"
      by simp_all
    show ?thesis
      using ih False k(2) by (auto simp: nth_Cons split: nat.splits)
  qed
qed

lemma np_index_nat: "i < length xs \<Longrightarrow> np_index xs (int i) = Inr (xs ! i)"
  by (simp add: np_index_def)

lemma np_index_pred: "0 < i \<Longrightarrow> i < length xs \<Longrightarrow> np_index xs (int i - 1) = Inr (xs ! (i - 1))"
proof -
  assume a: "0 < i" "i < length xs"
  then have "int i - 1 = int (i - 1)" by simp
  moreover have "i - 1 < length xs" using a by simp
  ultimately show ?thesis using np_index_nat by metis
qed

lemma first_index_first:
  "i < length xs \<Longrightarrow> P (xs ! i) \<Longrightarrow> \<forall>j<i. \<not> P (xs ! j) \<Longrightarrow> first_index P xs = Some i"
proof (induction xs arbitrary: i)
  case Nil
  then show ?case by simp
next
  case (Cons x xs)
  show ?case
  proof (cases i)
    case 0
    with Cons.prems show ?thesis by simp
  next
    case (Suc k)
    with Cons.prems have "\<not> P x" by auto
    moreover have "first_index P xs = Some k"
    proof (rule Cons.IH)
      show "k < length xs" using Cons.prems(1) Suc by simp
      show "P (xs ! k)" using Cons.prems(2) Suc by simp
      show "\<forall>j<k. \<not> P (xs ! j)"
      proof (intro allI impI)
        fix j assume "j < k"
        then have "Suc j < i" using Suc by simp
        with Cons.prems(3) have "\<not> P ((x # xs) ! Suc j)" by blast
        then show "\<not> P (xs ! j)" by simp
      qed
    qed
    ultimately show ?thesis using Suc by simp
  qed
qed

lemma find_hwhm_formula:
  assumes "first_index (\<lambda>v. v < 0.5) (scaled_profile p) = Some i"
    and "0 < i" and "length (ravg p) = length (scaled_profile p)"
  shows "find_hwhm p =
      Inr (ravg p ! i - (scaled_profile p ! i - 0.5) / (scaled_profile p ! i - scaled_profile p ! (i - 1))
             * (ravg p ! i - ravg p ! (i - 1)))"
proof -
  from first_index_Some [OF assms(1)] have i: "i < length (scaled_profile p)" by simp
  then have i': "i < length (ravg p)" using assms(3) by simp
  show ?thesis
    using assms(1)
    by (simp add: find_hwhm_def Let_def and_then_def np_index_nat [OF i] np_index_nat [OF i']
        np_index_pred [OF assms(2) i] np_index_pred [OF assms(2) i'])
qed

lemma interpolation_solves:
  fixes rm rl Im Il :: real
  assumes "Il < 0.5" "0.5 \<le> Im" "rm \<noteq> rl"
  shows "Im + (Il - Im) / (rl - rm) * ((rl - (Il - 0.5) / (Il - Im) * (rl - rm)) - rm) = 0.5"
proof -
  define a where "a = Il - Im"
  define d where "d = rl - rm"
  have a: "a \<noteq> 0" and d: "d \<noteq> 0" using assms by (auto simp: a_def d_def)
  have "(rl - (Il - 0.5) / a * d) - rm = d * (1 - (Il - 0.5) / a)"
    by (simp add: d_def algebra_simps)
  then have "a / d * ((rl - (Il - 0.5) / a * d) - rm) = a * (1 - (Il - 0.5) / a)"
    using d by simp
  also have "\<dots> = a - a * ((Il - 0.5) / a)"
    by (simp only: right_diff_distrib mult_1_right)
  also have "a * ((Il - 0.5) / a) = Il - 0.5"
    using a by simp
  finally show ?thesis by (simp add: a_def d_def)
qed

subsection \<open>Rounding\<close>

lemma np_round_near: "\<bar>of_int (np_round x) - x\<bar> \<le> 1 / 2"
proof -
  have "of_int \<lfloor>x\<rfloor> \<le> x" "x < of_int \<lfloor>x\<rfloor> + 1" by linarith+
  then show ?thesis
    by (auto simp: np_round_def Let_def)
qed

lemma np_round_of_int: "np_round (of_int n) = n"
  by (simp add: np_round_def)

lemma np_round_close:
  assumes "\<bar>a - b\<bar> \<le> 3 / 4"
  shows "\<bar>np_round a - np_round b\<bar> \<le> 1"
proof -
  have "\<bar>of_int (np_round a) - a\<bar> \<le> 1 / 2" "\<bar>of_int (np_round b) - b\<bar> \<le> 1 / 2"
    by (rule np_round_near)+
  with assms have "\<bar>(of_int (np_round a) :: real) - of_int (np_round b)\<bar> < 2"
    by linarith
  then have "\<bar>(of_int (np_round a - np_round b) :: real)\<bar> < of_int 2"
    by simp
  then have "\<bar>np_round a - np_round b\<bar> < 2"
    by (metis of_int_abs of_int_less_iff)
  then show ?thesis by simp
qed

subsection \<open>The night as a whole number of days\<close>

lemma py_int_of_int_div:
  "0 \<le> a \<Longrightarrow> py_int (of_int a / 24) = a div 24"
proof -
  assume a: "0 \<le> a"
  have "(of_int a :: real) / 24 = of_int a / of_int 24" by simp
  then have "\<lfloor>(of_int a :: real) / 24\<rfloor> = a div 24"
    by (simp only: floor_divide_of_int_eq)
  then show ?thesis using a by (simp add: py_int_def)
qed

lemma hour_split:
  fixes L :: real
  shows "\<lfloor>L / 3600\<rfloor> = \<lfloor>L / 60\<rfloor> div 60"
proof -
  have "L / 3600 = (L / 60) / real_of_int 60" by simp
  then show ?thesis by (simp only: floor_divide_real_eq_div)
qed

lemma minute_second:
  fixes L :: real
  shows "of_int (ymdhms_minute L) * 60 + ymdhms_second L = L - 3600 * of_int \<lfloor>L / 3600\<rfloor>"
proof -
  define q where "q = \<lfloor>L / 60\<rfloor>"
  have H: "\<lfloor>L / 3600\<rfloor> = q div 60" unfolding q_def by (rule hour_split)
  have m: "ymdhms_minute L = q mod 60" by (simp add: ymdhms_minute_def q_def)
  have s: "ymdhms_second L = L - 60 * of_int q" by (simp add: ymdhms_second_def q_def)
  have "q = 60 * (q div 60) + q mod 60" by simp
  then have "(of_int q :: real) = 60 * of_int (q div 60) + of_int (q mod 60)"
    by (metis of_int_add of_int_mult of_int_numeral)
  then show ?thesis
    unfolding H m s by (simp add: algebra_simps)
qed

lemma night_of_int:
  fixes t :: real and obs :: earth_location
  defines "L \<equiv> t + of_int (hr_offset obs) * 3600"
  defines "hr \<equiv> ymdhms_hour L"
  defines "shift_hr \<equiv> (if hr < 12 then hr + 12 else hr - 12)"
  shows "night_of obs t = py_int (of_int (\<lfloor>L / 3600\<rfloor> - shift_hr - hr_offset obs) / 24)"
proof -
  have ms: "of_int (ymdhms_minute L) * 60 + ymdhms_second L = L - 3600 * of_int \<lfloor>L / 3600\<rfloor>"
    by (rule minute_second)
  have "t + (- of_int shift_hr * 3600 - of_int (ymdhms_minute L) * 60 - ymdhms_second L)
      = t - of_int shift_hr * 3600 - (of_int (ymdhms_minute L) * 60 + ymdhms_second L)"
    by simp
  also have "\<dots> = t - of_int shift_hr * 3600 - (L - 3600 * of_int \<lfloor>L / 3600\<rfloor>)"
    by (simp only: ms)
  also have "\<dots> = 3600 * of_int (\<lfloor>L / 3600\<rfloor> - shift_hr - hr_offset obs)"
    by (simp add: L_def algebra_simps)
  finally have e: "(t + (- of_int shift_hr * 3600 - of_int (ymdhms_minute L) * 60
      - ymdhms_second L)) / 86400 = of_int (\<lfloor>L / 3600\<rfloor> - shift_hr - hr_offset obs) / 24"
    by simp
  have "night_of obs t =
      py_int ((t + (- of_int shift_hr * 3600 - of_int (ymdhms_minute L) * 60
                 - ymdhms_second L)) / 86400)"
    unfolding night_of_def Let_def L_def hr_def shift_hr_def ..
  then show ?thesis by (simp only: e)
qed

lemma night_of_floor:
  fixes t :: real
  assumes off: "- 11 \<le> hr_offset obs" "hr_offset obs \<le> 12"
    and pos: "43200 \<le> t + of_int (hr_offset obs) * 3600"
  shows "night_of obs t = \<lfloor>(t + of_int (hr_offset obs) * 3600 - 43200) / 86400\<rfloor>"
proof -
  define L where "L = t + of_int (hr_offset obs) * 3600"
  define H where "H = \<lfloor>L / 3600\<rfloor>"
  define hr where "hr = ymdhms_hour L"
  define D where "D = H div 24"
  define off where "off = hr_offset obs"
  have hr: "hr = H mod 24" by (simp add: hr_def H_def ymdhms_hour_def)
  have hr_range: "0 \<le> hr" "hr < 24" unfolding hr by simp_all
  have HD: "H = 24 * D + hr" unfolding hr D_def by simp
  have "12 \<le> L / 3600" using pos by (simp add: L_def)
  then have H12: "12 \<le> H" unfolding H_def by (simp add: le_floor_iff)
  define a where "a = H - (if hr < 12 then hr + 12 else hr - 12) - off"
  have n: "night_of obs t = py_int (of_int a / 24)"
    unfolding a_def H_def hr_def L_def off_def by (rule night_of_int)
  have offr: "- 11 \<le> off" "off \<le> 12" using off by (simp_all add: off_def)
  have a0: "0 \<le> a"
  proof (cases "hr < 12")
    case True
    with H12 HD have "0 < 24 * D" by simp
    then have "1 \<le> D" by simp
    then show ?thesis using True offr HD by (simp add: a_def)
  next
    case False
    with hr_range H12 HD have "0 \<le> 24 * D + 11" by simp
    then have "0 \<le> D" by simp
    then show ?thesis using False offr HD by (simp add: a_def)
  qed
  have adiv: "a div 24 = (H - 12) div 24"
  proof (cases "hr < 12")
    case True
    have "a = 24 * (D - 1) + (12 - off)" using True HD by (simp add: a_def)
    moreover have "0 \<le> 12 - off" "12 - off < 24" using offr by simp_all
    ultimately have 1: "a div 24 = D - 1" by (rule int_div_pos_eq)
    have "H - 12 = 24 * (D - 1) + (hr + 12)" using HD by simp
    moreover have "0 \<le> hr + 12" "hr + 12 < 24" using True hr_range by simp_all
    ultimately have "(H - 12) div 24 = D - 1" by (rule int_div_pos_eq)
    with 1 show ?thesis by simp
  next
    case False
    have "a = 24 * D + (12 - off)" using False HD by (simp add: a_def)
    moreover have "0 \<le> 12 - off" "12 - off < 24" using offr by simp_all
    ultimately have 1: "a div 24 = D" by (rule int_div_pos_eq)
    have "H - 12 = 24 * D + (hr - 12)" using HD by simp
    moreover have "0 \<le> hr - 12" "hr - 12 < 24" using False hr_range by simp_all
    ultimately have "(H - 12) div 24 = D" by (rule int_div_pos_eq)
    with 1 show ?thesis by simp
  qed
  have "(L - 43200) / 86400 = (L / 3600 - 12) / real_of_int 24" by simp
  then have "\<lfloor>(L - 43200) / 86400\<rfloor> = \<lfloor>L / 3600 - 12\<rfloor> div 24"
    by (simp only: floor_divide_real_eq_div)
  also have "\<lfloor>L / 3600 - 12\<rfloor> = H - 12" unfolding H_def by simp
  finally have "\<lfloor>(L - 43200) / 86400\<rfloor> = (H - 12) div 24" .
  with n adiv py_int_of_int_div [OF a0] show ?thesis by (simp add: L_def)
qed

subsection \<open>What the steps of the constructor read and write\<close>

lemma compute_column_cases:
  assumes "compute_column A obs cam c t = Inr t'"
  shows "(c \<in> set computed_columns \<and> c \<noteq> ''mag_error'' \<and> (\<exists>col. t' = t(c \<mapsto> col)))
       \<or> (c = ''mag_error'' \<and> (\<exists>col. mag_error t = Inr col \<and> t' = t(''mag_inst'' \<mapsto> col)))"
  using assms
  by (auto simp: compute_column_def computed_columns_def and_then_Inr split: if_splits)

lemma compute_columns_append:
  "compute_columns A obs cam r (xs @ ys) t
     = and_then (compute_columns A obs cam r xs t) (compute_columns A obs cam r ys)"
  by (induction xs arbitrary: t) (auto simp: and_then_def split: sum.splits)

lemma compute_columns_frame:
  assumes "compute_columns A obs cam r cs t = Inr t'" and "''mag_error'' \<notin> set cs"
  shows "(\<forall>k. k \<notin> set cs \<longrightarrow> t' k = t k) \<and> (\<forall>k \<in> set cs. t' k \<noteq> None)"
  using assms
proof (induction cs arbitrary: t)
  case Nil
  then show ?case by simp
next
  case (Cons c cs)
  from Cons.prems(2) have c: "c \<noteq> ''mag_error''" and cs: "''mag_error'' \<notin> set cs" by auto
  show ?case
  proof (cases "t c \<noteq> None")
    case True
    with Cons.prems(1) have rest: "compute_columns A obs cam r cs t = Inr t'"
      by (simp split: if_splits)
    from Cons.IH [OF rest cs]
    have ih: "\<forall>k. k \<notin> set cs \<longrightarrow> t' k = t k" "\<forall>k \<in> set cs. t' k \<noteq> None" by simp_all
    have "t' c \<noteq> None"
    proof (cases "c \<in> set cs")
      case True
      then show ?thesis using ih(2) by simp
    next
      case False
      then show ?thesis using ih(1) \<open>t c \<noteq> None\<close> by simp
    qed
    then show ?thesis using ih by simp
  next
    case False
    with Cons.prems(1) obtain t1 where t1: "compute_column A obs cam c t = Inr t1"
      and rest: "compute_columns A obs cam r cs t1 = Inr t'"
      by (auto simp: and_then_Inr)
    from compute_column_cases [OF t1] c obtain col where col: "t1 = t(c \<mapsto> col)" by auto
    from Cons.IH [OF rest cs]
    have ih: "\<forall>k. k \<notin> set cs \<longrightarrow> t' k = t1 k" "\<forall>k \<in> set cs. t' k \<noteq> None" by simp_all
    have "t' c \<noteq> None"
    proof (cases "c \<in> set cs")
      case True
      then show ?thesis using ih(2) by simp
    next
      case False
      then show ?thesis using ih(1) col by simp
    qed
    moreover have "\<forall>k. k \<notin> set (c # cs) \<longrightarrow> t' k = t k"
      using ih(1) col by simp
    ultimately show ?thesis using ih(2) by simp
  qed
qed

lemma compute_columns_retained:
  "\<forall>c \<in> set cs. t c \<noteq> None \<Longrightarrow> compute_columns A obs cam True cs t = Inr t"
  by (induction cs) simp_all

lemma update_passbands_step:
  assumes "update_passbands A ((orig, aavso) # pm) t = Inr t'"
  obtains (strings) w xs where "t ''passband'' = Some (StrColumn w xs)"
      and "update_passbands A pm
             (t(''passband'' \<mapsto>
                StrColumn w (map (\<lambda>p. if p = orig then take w aavso else p) xs))) = Inr t'"
    | (other) c renamed where "t ''passband'' = Some c" and "\<forall>w xs. c \<noteq> StrColumn w xs"
      and "rename_cells A c orig aavso = Inr renamed"
      and "update_passbands A pm (t(''passband'' \<mapsto> renamed)) = Inr t'"
proof -
  from assms obtain c where c: "t ''passband'' = Some c"
    by (auto simp: getcol_def and_then_Inr split: option.splits)
  show thesis
  proof (cases c)
    case (StrColumn w xs)
    with assms c show thesis by (intro strings [of w xs]) (simp_all add: getcol_def)
  next
    case (Column u xs)
    with assms c obtain renamed where "rename_cells A c orig aavso = Inr renamed"
      and "update_passbands A pm (t(''passband'' \<mapsto> renamed)) = Inr t'"
      by (auto simp: getcol_def and_then_Inr)
    with c Column show thesis by (intro other [of c renamed]) simp_all
  next
    case (TimeColumn sc ts)
    with assms c obtain renamed where "rename_cells A c orig aavso = Inr renamed"
      and "update_passbands A pm (t(''passband'' \<mapsto> renamed)) = Inr t'"
      by (auto simp: getcol_def and_then_Inr)
    with c TimeColumn show thesis by (intro other [of c renamed]) simp_all
  qed
qed

lemma update_passbands_frame:
  "update_passbands A pm t = Inr t' \<Longrightarrow> k \<noteq> ''passband'' \<Longrightarrow> t' k = t k"
proof (induction pm arbitrary: t)
  case Nil
  then show ?case by simp
next
  case (Cons kv pm)
  obtain orig aavso where kv: "kv = (orig, aavso)" by (cases kv)
  from Cons.prems(1) have run: "update_passbands A ((orig, aavso) # pm) t = Inr t'"
    by (simp only: kv)
  from run show ?case
  proof (cases rule: update_passbands_step)
    case (strings w xs)
    from Cons.IH [OF strings(2) Cons.prems(2)] show ?thesis using Cons.prems(2) by simp
  next
    case (other c renamed)
    from Cons.IH [OF other(4) Cons.prems(2)] show ?thesis using Cons.prems(2) by simp
  qed
qed

lemma check_date_obs_cong:
  "t' ''date-obs'' = t ''date-obs'' \<Longrightarrow> check_date_obs t' = check_date_obs t"
  by (simp add: check_date_obs_def)

lemma check_counts_loop_cong:
  "\<forall>c \<in> set cs. t' c = t c \<Longrightarrow> check_counts_loop c0 u cs t' = check_counts_loop c0 u cs t"
  by (induction cs) (auto split: option.splits sum.splits)

lemma check_counts_cong:
  "\<forall>c \<in> set counts_columns. t' c = t c \<Longrightarrow> check_counts t' = check_counts t"
proof -
  assume a: "\<forall>c \<in> set counts_columns. t' c = t c"
  have "set (tl counts_columns) \<subseteq> set counts_columns"
    by (simp add: counts_columns_def)
  with a have "\<forall>c \<in> set (tl counts_columns). t' c = t c" by blast
  then have loop: "\<And>c0 u. check_counts_loop c0 u (tl counts_columns) t'
      = check_counts_loop c0 u (tl counts_columns) t"
    by (rule check_counts_loop_cong)
  have "hd counts_columns \<in> set counts_columns" by (simp add: counts_columns_def)
  with a have "t' (hd counts_columns) = t (hd counts_columns)" by blast
  then show ?thesis unfolding check_counts_def by (simp only: loop)
qed

lemma check_description_cong:
  "\<forall>c u. (c, Some u) \<in> set desc \<longrightarrow> t' c = t c
    \<Longrightarrow> check_description desc t' = check_description desc t"
proof (induction desc)
  case Nil
  show ?case by simp
next
  case (Cons a desc)
  obtain c uo where a: "a = (c, uo)" by (cases a)
  have rest: "check_description desc t' = check_description desc t"
    by (rule Cons.IH) (use Cons.prems in auto)
  show ?case
  proof (cases uo)
    case None
    then show ?thesis using rest a by simp
  next
    case (Some u)
    then have "t' c = t c" using Cons.prems a by simp
    then show ?thesis using rest a Some by (simp split: option.splits sum.splits)
  qed
qed

subsection \<open>Renaming passbands twice\<close>

lemma update_passbands_no_keys:
  assumes "t ''passband'' = Some (StrColumn w xs)" and "set xs \<inter> fst ` set pm = {}"
  shows "update_passbands A pm t = Inr t"
  using assms
proof (induction pm)
  case Nil
  show ?case by simp
next
  case (Cons kv pm)
  obtain orig aavso where kv: "kv = (orig, aavso)" by (cases kv)
  have rest: "update_passbands A pm t = Inr t"
    by (rule Cons.IH) (use Cons.prems in auto)
  from Cons.prems(2) have "orig \<notin> set xs" by (auto simp: kv)
  then have "map (\<lambda>p. if p = orig then take w aavso else p) xs = xs"
    by (induction xs) auto
  moreover have "t(''passband'' \<mapsto> StrColumn w xs) = t"
    using Cons.prems(1) by (simp add: map_upd_triv)
  ultimately show ?case using rest Cons.prems(1) by (simp add: kv getcol_def)
qed

lemma update_passbands_cells:
  assumes "update_passbands A pm t = Inr t'"
    and "t ''passband'' = Some (StrColumn w xs)"
    and "take w ` snd ` set pm \<inter> (K \<union> fst ` set pm) = {}"
    and "set xs \<inter> K = {}"
  shows "\<exists>xs'. t' ''passband'' = Some (StrColumn w xs') \<and> set xs' \<inter> (K \<union> fst ` set pm) = {}"
  using assms
proof (induction pm arbitrary: t xs K)
  case Nil
  then show ?case by simp
next
  case (Cons kv pm)
  obtain orig aavso where kv: "kv = (orig, aavso)" by (cases kv)
  define xs1 where "xs1 = map (\<lambda>p. if p = orig then take w aavso else p) xs"
  define t1 where "t1 = t(''passband'' \<mapsto> StrColumn w xs1)"
  from Cons.prems(1,2) have run: "update_passbands A pm t1 = Inr t'"
    by (simp add: kv getcol_def t1_def xs1_def)
  have col: "t1 ''passband'' = Some (StrColumn w xs1)" by (simp add: t1_def)
  have vals: "take w ` snd ` set pm \<inter> (insert orig K \<union> fst ` set pm) = {}"
    using Cons.prems(3) by (auto simp: kv)
  have cut: "take w aavso \<notin> insert orig K"
    using Cons.prems(3) by (auto simp: kv)
  have cells: "set xs1 \<inter> insert orig K = {}"
    using Cons.prems(4) cut by (auto simp: xs1_def)
  have goal_eq: "K \<union> fst ` set (kv # pm) = insert orig K \<union> fst ` set pm"
    by (auto simp: kv)
  from Cons.IH [OF run col vals cells] show ?case by (simp only: goal_eq)
qed

lemma update_passbands_needs_column:
  "update_passbands A pm t = Inr t' \<Longrightarrow> pm \<noteq> [] \<Longrightarrow> t ''passband'' \<noteq> None"
  by (cases pm) (auto simp: getcol_def and_then_Inr split: option.splits)

lemma update_passbands_idem:
  assumes "update_passbands A pm t = Inr t'"
    and "pm = [] \<or> (\<exists>w xs. t ''passband'' = Some (StrColumn w xs)
           \<and> take w ` snd ` set pm \<inter> fst ` set pm = {})"
  shows "update_passbands A pm t' = Inr t'"
proof (cases "pm = []")
  case True
  then show ?thesis by simp
next
  case False
  with assms(2) obtain w xs where col: "t ''passband'' = Some (StrColumn w xs)"
    and "take w ` snd ` set pm \<inter> fst ` set pm = {}" by blast
  then have "take w ` snd ` set pm \<inter> ({} \<union> fst ` set pm) = {}" by simp
  from update_passbands_cells [OF assms(1) col this]
  obtain xs' where "t' ''passband'' = Some (StrColumn w xs')"
    and "set xs' \<inter> fst ` set pm = {}" by auto
  then show ?thesis by (rule update_passbands_no_keys)
qed

subsection \<open>The table of a successful construction\<close>

lemma init_Some_steps:
  "PhotometryData_init A obs cam data (Some pm) r = Inr p \<longleftrightarrow>
     (\<exists>t7 T. check_date_obs data = Inr () \<and> check_counts data = Inr ()
        \<and> check_description phot_descript data = Inr ()
        \<and> compute_columns A obs cam r computed_columns data = Inr t7
        \<and> update_passbands A pm t7 = Inr T
        \<and> p = \<lparr>pd_observatory = obs, pd_camera = cam, pd_passband_map = pm, pd_table = T\<rparr>)"
  by (auto simp: PhotometryData_init_def BaseEnhancedTable_init_def and_then_Inr
      split: sum.splits)

lemma mag_error_cong: "t' ''snr'' = t ''snr'' \<Longrightarrow> mag_error t' = mag_error t"
  by (simp add: mag_error_def getcol_def)

lemma computed_columns_split:
  "computed_columns =
     [''aperture_area'', ''annulus_area'', ''snr'', ''bjd'', ''night'', ''mag_inst'']
     @ [''mag_error'']"
  by (simp add: computed_columns_def)

lemma compute_all:
  assumes "compute_columns A obs cam r computed_columns t0 = Inr t7"
  shows "(\<forall>k. k \<notin> set computed_columns \<longrightarrow> t7 k = t0 k)"
    and "t7 ''mag_error'' = t0 ''mag_error''"
    and "\<forall>k \<in> set computed_columns. k \<noteq> ''mag_error'' \<longrightarrow> t7 k \<noteq> None"
    and "t0 ''mag_error'' = None \<longrightarrow> (\<exists>col. mag_error t7 = Inr col \<and> t7 ''mag_inst'' = Some col)"
proof -
  define six where
    "six = [''aperture_area'', ''annulus_area'', ''snr'', ''bjd'', ''night'', ''mag_inst'']"
  have split: "computed_columns = six @ [''mag_error'']"
    unfolding six_def by (rule computed_columns_split)
  from assms obtain t6 where t6: "compute_columns A obs cam r six t0 = Inr t6"
    and last: "compute_columns A obs cam r [''mag_error''] t6 = Inr t7"
    unfolding split compute_columns_append by (auto simp: and_then_Inr)
  have nm: "''mag_error'' \<notin> set six" by (simp add: six_def)
  from compute_columns_frame [OF t6 nm]
  have f6: "\<forall>k. k \<notin> set six \<longrightarrow> t6 k = t0 k" and e6: "\<forall>k \<in> set six. t6 k \<noteq> None"
    by simp_all
  have me6: "t6 ''mag_error'' = t0 ''mag_error''" using f6 nm by simp
  have step: "(t0 ''mag_error'' \<noteq> None \<and> t7 = t6)
      \<or> (t0 ''mag_error'' = None \<and> (\<exists>col. mag_error t6 = Inr col \<and> t7 = t6(''mag_inst'' \<mapsto> col)))"
  proof (cases "t6 ''mag_error''")
    case None
    with last have "compute_column A obs cam ''mag_error'' t6 = Inr t7"
      by (simp add: and_then_Inr)
    from compute_column_cases [OF this] None me6 show ?thesis by auto
  next
    case (Some c)
    with last me6 show ?thesis by (simp split: if_splits)
  qed
  have other: "t7 k = t6 k" if "k \<noteq> ''mag_inst''" for k
    using step that by auto
  have present: "t6 k \<noteq> None \<Longrightarrow> t7 k \<noteq> None" for k
    using step by auto
  have mi: "''mag_inst'' \<in> set six" by (simp add: six_def)
  have snr: "t7 ''snr'' = t6 ''snr''" by (rule other) simp
  show "\<forall>k. k \<notin> set computed_columns \<longrightarrow> t7 k = t0 k"
  proof (intro allI impI)
    fix k assume "k \<notin> set computed_columns"
    then have k: "k \<notin> set six" by (simp add: split)
    with mi have "k \<noteq> ''mag_inst''" by blast
    then have "t7 k = t6 k" by (rule other)
    with f6 k show "t7 k = t0 k" by simp
  qed
  show "t7 ''mag_error'' = t0 ''mag_error''"
    using other [of "''mag_error''"] me6 by simp
  show "\<forall>k \<in> set computed_columns. k \<noteq> ''mag_error'' \<longrightarrow> t7 k \<noteq> None"
  proof (intro ballI impI)
    fix k assume "k \<in> set computed_columns" "k \<noteq> ''mag_error''"
    then have "k \<in> set six" by (simp add: split)
    with e6 have "t6 k \<noteq> None" by blast
    then show "t7 k \<noteq> None" by (rule present)
  qed
  show "t0 ''mag_error'' = None \<longrightarrow> (\<exists>col. mag_error t7 = Inr col \<and> t7 ''mag_inst'' = Some col)"
    using step mag_error_cong [of t7 t6, OF snr] by auto
qed

lemma compute_again:
  assumes six: "\<forall>k \<in> set computed_columns. k \<noteq> ''mag_error'' \<longrightarrow> T k \<noteq> None"
    and me: "T ''mag_error'' = None \<longrightarrow> (\<exists>col. mag_error T = Inr col \<and> T ''mag_inst'' = Some col)"
  shows "compute_columns A obs cam True computed_columns T = Inr T"
proof -
  have first: "compute_columns A obs cam True
      [''aperture_area'', ''annulus_area'', ''snr'', ''bjd'', ''night'', ''mag_inst''] T = Inr T"
    by (rule compute_columns_retained) (use six in \<open>simp add: computed_columns_def\<close>)
  have last: "compute_columns A obs cam True [''mag_error''] T = Inr T"
  proof (cases "T ''mag_error''")
    case None
    with me obtain col where col: "mag_error T = Inr col" "T ''mag_inst'' = Some col" by auto
    then have "T(''mag_inst'' \<mapsto> col) = T" by (simp add: map_upd_triv)
    with None col show ?thesis by (simp add: compute_column_def)
  next
    case (Some c)
    then show ?thesis by simp
  qed
  show ?thesis
    unfolding computed_columns_split compute_columns_append using first last by simp
qed

lemma constructed_table:
  assumes "PhotometryData_init A obs cam data (Some pm) r = Inr p"
  shows "check_date_obs (pd_table p) = Inr ()"
    and "check_counts (pd_table p) = Inr ()"
    and "check_description phot_descript (pd_table p) = Inr ()"
    and "\<forall>k \<in> set computed_columns. k \<noteq> ''mag_error'' \<longrightarrow> pd_table p k \<noteq> None"
    and "pd_table p ''mag_error'' = data ''mag_error''"
    and "pd_table p ''mag_error'' = None \<longrightarrow>
           (\<exists>col. mag_error (pd_table p) = Inr col \<and> pd_table p ''mag_inst'' = Some col)"
    and "(pm = [] \<or> (\<exists>w xs. data ''passband'' = Some (StrColumn w xs)
             \<and> take w ` snd ` set pm \<inter> fst ` set pm = {}))
           \<longrightarrow> update_passbands A pm (pd_table p) = Inr (pd_table p)"
    and "p = \<lparr>pd_observatory = obs, pd_camera = cam, pd_passband_map = pm, pd_table = pd_table p\<rparr>"
proof -
  from assms obtain t7 T where chk: "check_date_obs data = Inr ()" "check_counts data = Inr ()"
      "check_description phot_descript data = Inr ()"
    and t7: "compute_columns A obs cam r computed_columns data = Inr t7"
    and T: "update_passbands A pm t7 = Inr T"
    and p: "p = \<lparr>pd_observatory = obs, pd_camera = cam, pd_passband_map = pm, pd_table = T\<rparr>"
    unfolding init_Some_steps by blast
  have pT: "pd_table p = T" using p by simp
  note c = compute_all [OF t7]
  have frame: "T k = data k" if "k \<notin> set computed_columns" "k \<noteq> ''passband''" for k
    using update_passbands_frame [OF T that(2)] c(1) that(1) by simp
  have keep: "T k = t7 k" if "k \<noteq> ''passband''" for k
    using update_passbands_frame [OF T that] .
  have "T ''date-obs'' = data ''date-obs''"
    by (rule frame) (simp_all add: computed_columns_def)
  then have "check_date_obs T = check_date_obs data" by (rule check_date_obs_cong)
  then show "check_date_obs (pd_table p) = Inr ()"
    using chk(1) by (simp only: pT)
  have "\<forall>c \<in> set counts_columns. T c = data c"
    using frame by (simp add: counts_columns_def computed_columns_def)
  then have "check_counts T = check_counts data" by (rule check_counts_cong)
  then show "check_counts (pd_table p) = Inr ()"
    using chk(2) by (simp only: pT)
  have "\<forall>c u. (c, Some u) \<in> set phot_descript \<longrightarrow> T c = data c"
    using frame by (auto simp: phot_descript_def computed_columns_def)
  then have "check_description phot_descript T = check_description phot_descript data"
    by (rule check_description_cong)
  then show "check_description phot_descript (pd_table p) = Inr ()"
    using chk(3) by (simp only: pT)
  show "\<forall>k \<in> set computed_columns. k \<noteq> ''mag_error'' \<longrightarrow> pd_table p k \<noteq> None"
    unfolding pT using c(3) keep by (auto simp: computed_columns_def)
  show me: "pd_table p ''mag_error'' = data ''mag_error''"
    unfolding pT using c(2) keep [of "''mag_error''"] by simp
  have "mag_error T = mag_error t7" by (rule mag_error_cong) (simp add: keep)
  then show "pd_table p ''mag_error'' = None \<longrightarrow>
           (\<exists>col. mag_error (pd_table p) = Inr col \<and> pd_table p ''mag_inst'' = Some col)"
    unfolding pT using c(4) c(2) keep [of "''mag_error''"] keep [of "''mag_inst''"] by simp
  have "t7 ''passband'' = data ''passband''"
    using c(1) by (simp add: computed_columns_def)
  then show "(pm = [] \<or> (\<exists>w xs. data ''passband'' = Some (StrColumn w xs)
             \<and> take w ` snd ` set pm \<inter> fst ` set pm = {}))
           \<longrightarrow> update_passbands A pm (pd_table p) = Inr (pd_table p)"
    unfolding pT using update_passbands_idem [OF T] by simp
  show "p = \<lparr>pd_observatory = obs, pd_camera = cam, pd_passband_map = pm, pd_table = pd_table p\<rparr>"
    using p by simp
qed

lemma again_retained:
  assumes "PhotometryData_init A obs cam data (Some pm) r = Inr p"
    and "pm = [] \<or> (\<exists>w xs. data ''passband'' = Some (StrColumn w xs)
           \<and> take w ` snd ` set pm \<inter> fst ` set pm = {})"
  shows "PhotometryData_init A obs cam (pd_table p) (Some pm) True = Inr p"
proof -
  note c = constructed_table [OF assms(1)]
  have "compute_columns A obs cam True computed_columns (pd_table p) = Inr (pd_table p)"
    using c(4) c(6) by (rule compute_again)
  then show ?thesis
    unfolding init_Some_steps using c(1,2,3) c(7) assms(2) c(8) by blast
qed

lemma again_default:
  assumes "PhotometryData_init A obs cam data (Some pm) r = Inr p"
  shows "PhotometryData_init A obs cam (pd_table p) (Some pm) False
           = Inl (ValueError (ComputedExists ''aperture_area''))"
proof -
  note c = constructed_table [OF assms(1)]
  have "pd_table p ''aperture_area'' \<noteq> None" using c(4) by (simp add: computed_columns_def)
  then have "compute_columns A obs cam False computed_columns (pd_table p)
      = Inl (ValueError (ComputedExists ''aperture_area''))"
    by (simp add: computed_columns_def)
  then show ?thesis
    using c(1,2,3) by (simp add: PhotometryData_init_def BaseEnhancedTable_init_def)
qed

subsection \<open>The loop over the counts columns\<close>

lemma check_counts_loop_find:
  assumes "\<forall>c \<in> set cs. \<exists>col. data c = Some col \<and> col_unit col = Inr (U c)"
  shows "check_counts_loop c0 u cs data =
     (case find (\<lambda>c. U c \<noteq> u) cs of
        None \<Rightarrow> Inr ()
      | Some c \<Rightarrow> Inl (ValueError (InconsistentUnits c c0 u (U c))))"
  using assms
proof (induction cs)
  case Nil
  show ?case by simp
next
  case (Cons c cs)
  from Cons.prems obtain col where col: "data c = Some col" "col_unit col = Inr (U c)"
    by auto
  have rest: "check_counts_loop c0 u cs data =
     (case find (\<lambda>c. U c \<noteq> u) cs of
        None \<Rightarrow> Inr ()
      | Some c \<Rightarrow> Inl (ValueError (InconsistentUnits c c0 u (U c))))"
    by (rule Cons.IH) (use Cons.prems in simp)
  show ?case
  proof (cases "U c \<noteq> u")
    case True
    then show ?thesis using col by simp
  next
    case False
    then show ?thesis using col rest by simp
  qed
qed

lemma find_only:
  "c \<in> set cs \<Longrightarrow> P c \<Longrightarrow> \<forall>c' \<in> set cs. c' \<noteq> c \<longrightarrow> \<not> P c' \<Longrightarrow> find P cs = Some c"
  by (induction cs) auto

lemma find_none: "\<forall>c \<in> set cs. \<not> P c \<Longrightarrow> find P cs = None"
  by (induction cs) auto

lemma check_counts_find:
  assumes "\<forall>c \<in> set counts_columns. \<exists>col. data c = Some col \<and> col_unit col = Inr (U c)"
  shows "check_counts data =
     (case find (\<lambda>c. U c \<noteq> U ''aperture_sum'') (tl counts_columns) of
        None \<Rightarrow> Inr ()
      | Some c \<Rightarrow>
          Inl (ValueError (InconsistentUnits c ''aperture_sum'' (U ''aperture_sum'') (U c))))"
proof -
  have hd: "hd counts_columns = ''aperture_sum''" by (simp add: counts_columns_def)
  have "''aperture_sum'' \<in> set counts_columns" by (simp add: counts_columns_def)
  with assms obtain c0 where c0: "data ''aperture_sum'' = Some c0"
    "col_unit c0 = Inr (U ''aperture_sum'')" by blast
  have "set (tl counts_columns) \<subseteq> set counts_columns" by (simp add: counts_columns_def)
  with assms
  have "\<forall>c \<in> set (tl counts_columns). \<exists>col. data c = Some col \<and> col_unit col = Inr (U c)"
    by blast
  from check_counts_loop_find [OF this] c0 show ?thesis
    unfolding check_counts_def hd by simp
qed

lemma init_counts_error:
  "check_date_obs data = Inr () \<Longrightarrow> check_counts data = Inl e
     \<Longrightarrow> PhotometryData_init A obs cam data (Some pm) r = Inl e"
  by (simp add: PhotometryData_init_def)

subsection \<open>The night at longitude 0\<close>

lemma night_at_greenwich:
  assumes "lon obs = 0" and "43200 \<le> t"
  shows "night_of obs t = \<lfloor>(t - 43200) / 86400\<rfloor>"
proof -
  have off: "hr_offset obs = 0" using assms(1) by (simp add: hr_offset_def py_int_def)
  have "night_of obs t = \<lfloor>(t + of_int (hr_offset obs) * 3600 - 43200) / 86400\<rfloor>"
    by (rule night_of_floor) (use off assms(2) in simp_all)
  then show ?thesis by (simp add: off)
qed

subsection \<open>The construction of the example\<close>

lemma example_checks:
  "check_date_obs example_table = Inr ()"
  "check_counts example_table = Inr ()"
  "BaseEnhancedTable_init phot_descript example_table = Inr example_table"
  by (simp_all add: check_date_obs_def check_counts_def counts_columns_def
      BaseEnhancedTable_init_def phot_descript_def example_table_def
      u_deg_def u_pix_def u_s_def u_adu_def)

lemma example_night: "night_of example_observatory 5184082800 = 60000"
  by (simp add: night_of_def hr_offset_def py_int_def ymdhms_hour_def ymdhms_minute_def
      ymdhms_second_def Let_def example_observatory_def)

lemma example_columns:
  "compute_columns example_astro example_observatory example_camera False computed_columns
     example_table = Inr example_result_table"
  unfolding computed_columns_def example_result_table_def
  by (simp add: compute_column_def aperture_area_def annulus_area_def snr_def getcol_def
      get_values_def add_bjd_col_def get_times_def night_def mag_inst_def mag_error_def
      example_camera_def example_astro_def example_night example_table_def)

lemma example_construction:
  "PhotometryData_init example_astro example_observatory example_camera example_table
     (Some []) False = Inr example_result"
  by (simp add: PhotometryData_init_def example_checks example_columns example_result_def)

lemma example_renamed_construction:
  "PhotometryData_init example_astro example_observatory example_camera example_table
     (Some example_passband_map) False = Inr example_result_renamed"
proof -
  have "update_passbands example_astro example_passband_map example_result_table
      = Inr (example_result_table(''passband'' \<mapsto> StrColumn 1 [''V'']))"
    by (simp add: example_passband_map_def getcol_def example_result_table_def
        example_table_def)
  then show ?thesis
    by (simp add: PhotometryData_init_def example_checks example_columns
        example_result_renamed_def)
qed

text \<open>
  A new name that does not fit the column is cut when it is written, and the cut name can
  be a key of the map: renaming the example's passbands with \<open>cutting_passband_map\<close> gives
  \<open>S\<close>, and renaming the result again gives \<open>X\<close>.
\<close>

lemma cut_name_renamed_again:
  "update_passbands example_astro cutting_passband_map example_table
     = Inr (example_table(''passband'' \<mapsto> StrColumn 1 [''S'']))"
  "update_passbands example_astro cutting_passband_map
     (example_table(''passband'' \<mapsto> StrColumn 1 [''S'']))
     = Inr (example_table(''passband'' \<mapsto> StrColumn 1 [''X'']))"
  by (simp_all add: cutting_passband_map_def getcol_def example_table_def)

text \<open>
  With the stand-in for numpy, a \<open>passband\<close> column of numbers is not renamed: the
  assignment of the new name raises.
\<close>

lemma numeric_passband_refused:
  "update_passbands example_astro example_passband_map
     (example_table(''passband'' \<mapsto> Column None [1]))
     = Inl (ValueError (CouldNotConvert ''V''))"
  by (simp add: example_passband_map_def getcol_def example_astro_def)

lemma log10_100: "log 10 100 = (2::real)"
proof -
  have "(100::real) = 10 ^ 2" by simp
  then have "log 10 (100::real) = log 10 (10 ^ 2)" by (rule arg_cong)
  also have "\<dots> = real 2 * log 10 10" by (rule log_nat_power) simp
  finally show ?thesis by simp
qed

lemma example_mag_inst: "mag_inst example_camera example_table = Inr (Column None [- 5])"
  by (simp add: mag_inst_def get_values_def getcol_def example_camera_def example_table_def
      log10_100)


lemma no_star_id_construction:
  "BaseEnhancedTable_init phot_descript example_table_no_star_id = Inr example_table_no_star_id"
  "\<not> isl (PhotometryData_init example_astro example_observatory example_camera
            example_table_no_star_id (Some []) False)"
proof -
  have chk: "check_date_obs example_table_no_star_id = Inr ()"
    "check_counts example_table_no_star_id = Inr ()"
    by (simp_all add: check_date_obs_def check_counts_def counts_columns_def
        example_table_no_star_id_def example_table_def)
  show base: "BaseEnhancedTable_init phot_descript example_table_no_star_id
      = Inr example_table_no_star_id"
    by (simp add: BaseEnhancedTable_init_def phot_descript_def example_table_no_star_id_def
        example_table_def u_deg_def u_pix_def u_s_def)
  have "\<not> isl (compute_columns example_astro example_observatory example_camera False
      computed_columns example_table_no_star_id)"
    unfolding computed_columns_def
    by (simp add: compute_column_def aperture_area_def annulus_area_def snr_def getcol_def
        get_values_def add_bjd_col_def get_times_def night_def mag_inst_def mag_error_def
        example_astro_def example_table_no_star_id_def example_table_def)
  then obtain t where "compute_columns example_astro example_observatory example_camera False
      computed_columns example_table_no_star_id = Inr t"
    by (cases "compute_columns example_astro example_observatory example_camera False
      computed_columns example_table_no_star_id") simp_all
  then show "\<not> isl (PhotometryData_init example_astro example_observatory example_camera
            example_table_no_star_id (Some []) False)"
    by (simp add: PhotometryData_init_def chk base)
qed

section \<open>The claims\<close>

text \<open>
  C1. The claim: after construction from a table with none of the computed columns, the
  table has a column \<open>mag_error\<close> equal to \<open>1.0857362 / snr\<close>. The code assigns that
  quotient to \<open>self['mag_inst']\<close>: whenever the construction succeeds on a table without a
  \<open>mag_error\<close> column, the result has no \<open>mag_error\<close> column either, and its \<open>mag_inst\<close>
  column holds \<open>1.085736205 / snr\<close>.
\<close>

theorem C1_mag_error_column_never_written:
  assumes "PhotometryData_init A observatory cam data passband_map retain_user_computed = Inr p"
    and "data ''mag_error'' = None"
  shows "pd_table p ''mag_error'' = None
       \<and> (\<exists>col. mag_error (pd_table p) = Inr col \<and> pd_table p ''mag_inst'' = Some col)"
proof -
  from assms(1) obtain pm where pm: "passband_map = Some pm"
    by (cases passband_map) (simp_all add: PhotometryData_init_def)
  note c = constructed_table [OF assms(1) [unfolded pm]]
  from c(5) assms(2) have "pd_table p ''mag_error'' = None" by simp
  with c(6) show ?thesis by simp
qed

theorem C1_mag_error_column_never_written_witness:
  "PhotometryData_init example_astro example_observatory example_camera example_table
     (Some []) False = Inr example_result
   \<and> example_table ''mag_error'' = None
   \<and> pd_table example_result ''mag_error'' = None
   \<and> mag_error (pd_table example_result) = Inr (Column None [0.1085736205])
   \<and> pd_table example_result ''mag_inst'' = Some (Column None [0.1085736205])"
proof -
  have none: "example_table ''mag_error'' = None" by (simp add: example_table_def)
  have inst: "pd_table example_result ''mag_inst'' = Some (Column None [0.1085736205])"
    by (simp add: example_result_def example_result_table_def)
  from C1_mag_error_column_never_written [OF example_construction none] inst
  show ?thesis using example_construction none by auto
qed

text \<open>
  C2. The claim: after construction the \<open>mag_inst\<close> column is
  \<open>-2.5 * log10(gain * aperture_net_cnts / exposure)\<close>, which is -5.0 for gain 1, 100 net
  counts and an exposure of 1 s. On that input the \<open>mag_inst\<close> case does compute -5, and the
  \<open>mag_error\<close> case that follows replaces it: the constructed table has
  \<open>1.085736205 / 10\<close> in \<open>mag_inst\<close>.
\<close>

theorem C2_mag_inst_overwritten:
  "PhotometryData_init example_astro example_observatory example_camera example_table
     (Some []) False = Inr example_result
   \<and> pd_table example_result ''mag_inst'' = Some (Column None [0.1085736205])
   \<and> mag_inst example_camera example_table = Inr (Column None [- 5])"
  using example_construction example_mag_inst
  by (simp add: example_result_def example_result_table_def)

text \<open>
  C3. The claim: a table that lacks a described column is refused with an error that names
  the column, also when the required unit of the column is \<open>None\<close>. The loop of
  \<open>BaseEnhancedTable.__init__\<close> skips the entries whose unit is \<open>None\<close>: the example table
  without its \<open>star_id\<close> column passes the validation against \<open>phot_descript\<close> unchanged,
  and \<open>PhotometryData\<close> is constructed from it.
\<close>

theorem C3_missing_unitless_column_accepted:
  "example_table_no_star_id ''star_id'' = None
   \<and> BaseEnhancedTable_init phot_descript example_table_no_star_id
       = Inr example_table_no_star_id
   \<and> \<not> isl (PhotometryData_init example_astro example_observatory example_camera
              example_table_no_star_id (Some []) False)"
  using no_star_id_construction by (simp add: example_table_no_star_id_def)

text \<open>
  C4, as the code has it. The unit of \<open>aperture_sum\<close> is the reference. When the seven
  counts columns share one unit the check passes. When one of the other six columns is the
  only one whose unit differs from that of \<open>aperture_sum\<close>, the check raises the
  \<open>ValueError\<close> that names this column. When it is \<open>aperture_sum\<close> whose unit differs from
  the other six, the \<open>ValueError\<close> names \<open>annulus_sum\<close>, the first column compared, as
  inconsistent with \<open>aperture_sum\<close>. With a valid time column the constructor raises the
  error of the check.
\<close>

theorem C4_counts_units_compared_with_aperture_sum:
  assumes "\<forall>c \<in> set counts_columns. \<exists>col. data c = Some col \<and> col_unit col = Inr (U c)"
  shows "((\<forall>c \<in> set counts_columns. U c = U ''aperture_sum'') \<longrightarrow> check_counts data = Inr ())
       \<and> (\<forall>c \<in> set (tl counts_columns).
             U c \<noteq> U ''aperture_sum''
             \<and> (\<forall>c' \<in> set (tl counts_columns). c' \<noteq> c \<longrightarrow> U c' = U ''aperture_sum'')
             \<longrightarrow> check_counts data
                   = Inl (ValueError
                       (InconsistentUnits c ''aperture_sum'' (U ''aperture_sum'') (U c))))
       \<and> ((\<forall>c \<in> set (tl counts_columns). U c \<noteq> U ''aperture_sum'')
            \<longrightarrow> check_counts data
                  = Inl (ValueError
                      (InconsistentUnits ''annulus_sum'' ''aperture_sum'' (U ''aperture_sum'')
                         (U ''annulus_sum''))))
       \<and> (\<forall>e. check_date_obs data = Inr () \<and> check_counts data = Inl e
            \<longrightarrow> PhotometryData_init A observatory cam data (Some pm) retain_user_computed
                  = Inl e)"
proof (intro conjI)
  note result = check_counts_find [OF assms]
  show "(\<forall>c \<in> set counts_columns. U c = U ''aperture_sum'') \<longrightarrow> check_counts data = Inr ()"
  proof
    assume "\<forall>c \<in> set counts_columns. U c = U ''aperture_sum''"
    then have "\<forall>c \<in> set (tl counts_columns). \<not> U c \<noteq> U ''aperture_sum''"
      by (simp add: counts_columns_def)
    then have "find (\<lambda>c. U c \<noteq> U ''aperture_sum'') (tl counts_columns) = None"
      by (rule find_none)
    with result show "check_counts data = Inr ()" by simp
  qed
  show "\<forall>c \<in> set (tl counts_columns).
      U c \<noteq> U ''aperture_sum''
      \<and> (\<forall>c' \<in> set (tl counts_columns). c' \<noteq> c \<longrightarrow> U c' = U ''aperture_sum'')
      \<longrightarrow> check_counts data
            = Inl (ValueError (InconsistentUnits c ''aperture_sum'' (U ''aperture_sum'') (U c)))"
  proof (intro ballI impI)
    fix c
    assume c: "c \<in> set (tl counts_columns)"
      and odd: "U c \<noteq> U ''aperture_sum''
        \<and> (\<forall>c' \<in> set (tl counts_columns). c' \<noteq> c \<longrightarrow> U c' = U ''aperture_sum'')"
    from odd have "\<forall>c' \<in> set (tl counts_columns). c' \<noteq> c \<longrightarrow> \<not> U c' \<noteq> U ''aperture_sum''"
      by simp
    with c odd have "find (\<lambda>c. U c \<noteq> U ''aperture_sum'') (tl counts_columns) = Some c"
      by (intro find_only) simp_all
    with result show "check_counts data
        = Inl (ValueError (InconsistentUnits c ''aperture_sum'' (U ''aperture_sum'') (U c)))"
      by simp
  qed
  show "(\<forall>c \<in> set (tl counts_columns). U c \<noteq> U ''aperture_sum'')
      \<longrightarrow> check_counts data
            = Inl (ValueError
                (InconsistentUnits ''annulus_sum'' ''aperture_sum'' (U ''aperture_sum'')
                   (U ''annulus_sum'')))"
  proof
    assume "\<forall>c \<in> set (tl counts_columns). U c \<noteq> U ''aperture_sum''"
    then have "find (\<lambda>c. U c \<noteq> U ''aperture_sum'') (tl counts_columns) = Some ''annulus_sum''"
      by (simp add: counts_columns_def)
    with result show "check_counts data
        = Inl (ValueError
            (InconsistentUnits ''annulus_sum'' ''aperture_sum'' (U ''aperture_sum'')
               (U ''annulus_sum'')))"
      by simp
  qed
  show "\<forall>e. check_date_obs data = Inr () \<and> check_counts data = Inl e
      \<longrightarrow> PhotometryData_init A observatory cam data (Some pm) retain_user_computed = Inl e"
    using init_counts_error by blast
qed


theorem C4_counts_units_compared_with_aperture_sum_witness:
  "check_counts example_table = Inr ()
   \<and> check_counts example_table_odd_noise
       = Inl (ValueError (InconsistentUnits ''noise'' ''aperture_sum'' (Some u_adu)
                (Some u_electron)))
   \<and> PhotometryData_init example_astro example_observatory example_camera
       example_table_odd_noise (Some []) False
       = Inl (ValueError (InconsistentUnits ''noise'' ''aperture_sum'' (Some u_adu)
                (Some u_electron)))
   \<and> check_counts example_table_odd_aperture_sum
       = Inl (ValueError (InconsistentUnits ''annulus_sum'' ''aperture_sum'' (Some u_electron)
                (Some u_adu)))"
proof -
  define W where "W = (\<lambda>c. if c = ''aperture_sum'' then Some u_electron else Some u_adu)"
  have reference: "\<forall>c \<in> set counts_columns.
      \<exists>col. example_table_odd_aperture_sum c = Some col \<and> col_unit col = Inr (W c)"
    by (simp add: counts_columns_def example_table_odd_aperture_sum_def example_table_def
        W_def)
  have all_differ: "\<forall>c \<in> set (tl counts_columns). W c \<noteq> W ''aperture_sum''"
    by (simp add: W_def counts_columns_def u_adu_def u_electron_def)
  have "check_counts example_table_odd_aperture_sum
      = Inl (ValueError (InconsistentUnits ''annulus_sum'' ''aperture_sum'' (W ''aperture_sum'')
               (W ''annulus_sum'')))"
    using C4_counts_units_compared_with_aperture_sum [of example_table_odd_aperture_sum W
      example_astro example_observatory example_camera "[]" False, OF reference,
      THEN conjunct2, THEN conjunct2, THEN conjunct1] all_differ
    by (rule mp)
  then have first_named: "check_counts example_table_odd_aperture_sum
      = Inl (ValueError (InconsistentUnits ''annulus_sum'' ''aperture_sum'' (Some u_electron)
               (Some u_adu)))"
    by (simp add: W_def)
  define U where "U = (\<lambda>c :: string. Some u_adu)"
  define V where "V = (\<lambda>c. if c = ''noise'' then Some u_electron else Some u_adu)"
  have same: "\<forall>c \<in> set counts_columns.
      \<exists>col. example_table c = Some col \<and> col_unit col = Inr (U c)"
    by (simp add: counts_columns_def example_table_def U_def)
  have odd: "\<forall>c \<in> set counts_columns.
      \<exists>col. example_table_odd_noise c = Some col \<and> col_unit col = Inr (V c)"
    by (simp add: counts_columns_def example_table_odd_noise_def example_table_def V_def)
  have all_same: "\<forall>c \<in> set counts_columns. U c = U ''aperture_sum''"
    by (simp add: U_def)
  have passes: "check_counts example_table = Inr ()"
    using C4_counts_units_compared_with_aperture_sum [OF same, THEN conjunct1] all_same
    by (rule mp)
  have noise: "''noise'' \<in> set (tl counts_columns)" by (simp add: counts_columns_def)
  have only: "V ''noise'' \<noteq> V ''aperture_sum''
      \<and> (\<forall>c' \<in> set (tl counts_columns). c' \<noteq> ''noise'' \<longrightarrow> V c' = V ''aperture_sum'')"
    by (simp add: V_def counts_columns_def u_adu_def u_electron_def)
  note rest = C4_counts_units_compared_with_aperture_sum [of example_table_odd_noise V
      example_astro example_observatory example_camera "[]" False, OF odd, THEN conjunct2]
  have "check_counts example_table_odd_noise
      = Inl (ValueError (InconsistentUnits ''noise'' ''aperture_sum'' (V ''aperture_sum'')
               (V ''noise'')))"
    using rest [THEN conjunct1, THEN bspec, OF noise] only by (rule mp)
  then have fails: "check_counts example_table_odd_noise
      = Inl (ValueError (InconsistentUnits ''noise'' ''aperture_sum'' (Some u_adu)
               (Some u_electron)))"
    by (simp add: V_def)
  have time: "check_date_obs example_table_odd_noise = Inr ()"
    by (simp add: check_date_obs_def example_table_odd_noise_def example_table_def)
  have "PhotometryData_init example_astro example_observatory example_camera
      example_table_odd_noise (Some []) False
      = Inl (ValueError (InconsistentUnits ''noise'' ''aperture_sum'' (Some u_adu)
               (Some u_electron)))"
    using rest [THEN conjunct2, THEN conjunct2, THEN spec] time fails by blast
  with passes fails first_named show ?thesis by (intro conjI)
qed

theorem C4_counterexample:
  "PhotometryData_init example_astro example_observatory example_camera
     example_table_odd_aperture_sum (Some []) False
   = Inl (ValueError (InconsistentUnits ''annulus_sum'' ''aperture_sum'' (Some u_electron)
            (Some u_adu)))"
  by (simp add: PhotometryData_init_def check_date_obs_def check_counts_def counts_columns_def
      example_table_odd_aperture_sum_def example_table_def u_adu_def u_electron_def)

text \<open>
  C5, as the code has it. The hour offset is \<open>int(longitude / 15)\<close>, the quotient
  truncated toward zero: the floor for a longitude that is not negative, and the negated
  floor of the negated quotient for a western one. The offset is added to the UTC time,
  the time is shifted back to the preceding local noon and the Modified Julian Date of
  the result is truncated: for an offset between -11 and 12 hours and a local time after
  the first noon of the MJD count, the night is the whole number of days elapsed at that
  local noon. At longitude 0, two observations two hours apart with a midnight between
  them have the same night, and two observations thirteen hours apart with a noon
  between them have different nights.
\<close>

theorem C5_night_with_truncated_offset:
  "hr_offset obs = (if 0 \<le> lon obs then \<lfloor>lon obs / 15\<rfloor> else - \<lfloor>- lon obs / 15\<rfloor>)
   \<and> (0 \<le> lon obs \<longrightarrow> hr_offset obs = spec_hr_offset obs)
   \<and> (- 11 \<le> hr_offset obs \<and> hr_offset obs \<le> 12
        \<and> 43200 \<le> t + of_int (hr_offset obs) * 3600
      \<longrightarrow> night_of obs t = \<lfloor>(t + of_int (hr_offset obs) * 3600 - 43200) / 86400\<rfloor>)
   \<and> (lon obs = 0 \<and> 43200 \<le> t
        \<and> (\<exists>k. t < 86400 * of_int k \<and> 86400 * of_int k < t + 7200)
      \<longrightarrow> night_of obs (t + 7200) = night_of obs t)
   \<and> (lon obs = 0 \<and> 43200 \<le> t
        \<and> (\<exists>k. t < 86400 * of_int k + 43200 \<and> 86400 * of_int k + 43200 \<le> t + 46800)
      \<longrightarrow> night_of obs (t + 46800) \<noteq> night_of obs t)"
proof (intro conjI impI)
  show "hr_offset obs = (if 0 \<le> lon obs then \<lfloor>lon obs / 15\<rfloor> else - \<lfloor>- lon obs / 15\<rfloor>)"
    by (simp add: hr_offset_def py_int_def ceiling_def)
next
  assume "0 \<le> lon obs"
  then show "hr_offset obs = spec_hr_offset obs"
    by (simp add: hr_offset_def spec_hr_offset_def py_int_def)
next
  assume "- 11 \<le> hr_offset obs \<and> hr_offset obs \<le> 12
    \<and> 43200 \<le> t + of_int (hr_offset obs) * 3600"
  then show "night_of obs t = \<lfloor>(t + of_int (hr_offset obs) * 3600 - 43200) / 86400\<rfloor>"
    by (intro night_of_floor) simp_all
next
  assume a: "lon obs = 0 \<and> 43200 \<le> t
    \<and> (\<exists>k. t < 86400 * of_int k \<and> 86400 * of_int k < t + 7200)"
  then obtain k :: int where k: "t < 86400 * of_int k" "86400 * of_int k < t + 7200" by blast
  have n1: "night_of obs t = \<lfloor>(t - 43200) / 86400\<rfloor>"
    using a by (intro night_at_greenwich) simp_all
  have n2: "night_of obs (t + 7200) = \<lfloor>(t + 7200 - 43200) / 86400\<rfloor>"
    using a by (intro night_at_greenwich) simp_all
  have "\<lfloor>(t - 43200) / 86400\<rfloor> = k - 1"
    by (rule floor_unique) (use k in simp_all)
  moreover have "\<lfloor>(t + 7200 - 43200) / 86400\<rfloor> = k - 1"
    by (rule floor_unique) (use k in simp_all)
  ultimately show "night_of obs (t + 7200) = night_of obs t"
    using n1 n2 by simp
next
  assume a: "lon obs = 0 \<and> 43200 \<le> t
    \<and> (\<exists>k. t < 86400 * of_int k + 43200 \<and> 86400 * of_int k + 43200 \<le> t + 46800)"
  then obtain k :: int where k: "t < 86400 * of_int k + 43200"
    "86400 * of_int k + 43200 \<le> t + 46800" by blast
  have n1: "night_of obs t = \<lfloor>(t - 43200) / 86400\<rfloor>"
    using a by (intro night_at_greenwich) simp_all
  have n2: "night_of obs (t + 46800) = \<lfloor>(t + 46800 - 43200) / 86400\<rfloor>"
    using a by (intro night_at_greenwich) simp_all
  have "\<lfloor>(t - 43200) / 86400\<rfloor> = k - 1"
    by (rule floor_unique) (use k in simp_all)
  moreover have "\<lfloor>(t + 46800 - 43200) / 86400\<rfloor> = k"
    by (rule floor_unique) (use k in simp_all)
  ultimately show "night_of obs (t + 46800) \<noteq> night_of obs t"
    using n1 n2 by simp
qed

theorem C5_night_with_truncated_offset_witness:
  "lon example_observatory = 0
   \<and> 0 \<le> lon example_observatory
   \<and> (43200 :: real) \<le> 5184082800
   \<and> (5184082800 :: real) < 86400 * of_int 60001
   \<and> 86400 * of_int 60001 < (5184082800 :: real) + 7200
   \<and> (5184082800 :: real) < 86400 * of_int 60001 + 43200
   \<and> 86400 * of_int 60001 + 43200 \<le> (5184082800 :: real) + 46800
   \<and> hr_offset example_observatory = 0
   \<and> hr_offset example_observatory = spec_hr_offset example_observatory
   \<and> night_of example_observatory 5184082800 = \<lfloor>(5184082800 - 43200) / 86400 :: real\<rfloor>
   \<and> night_of example_observatory 5184082800 = 60000
   \<and> night_of example_observatory (5184082800 + 7200) = 60000
   \<and> night_of example_observatory (5184082800 + 46800) \<noteq> 60000"
proof -
  have lon0: "lon example_observatory = 0" by (simp add: example_observatory_def)
  have east: "0 \<le> lon example_observatory" by (simp add: example_observatory_def)
  have t: "(43200 :: real) \<le> 5184082800" by simp
  have midnight: "\<exists>k. (5184082800 :: real) < 86400 * of_int k
      \<and> 86400 * of_int k < (5184082800 :: real) + 7200"
    by (rule exI [of _ 60001]) simp
  have noon: "\<exists>k. (5184082800 :: real) < 86400 * of_int k + 43200
      \<and> 86400 * of_int k + 43200 \<le> (5184082800 :: real) + 46800"
    by (rule exI [of _ 60001]) simp
  note c5 = C5_night_with_truncated_offset [of example_observatory 5184082800]
  have off: "hr_offset example_observatory = 0"
    using c5 [THEN conjunct1] lon0 by simp
  have spec: "hr_offset example_observatory = spec_hr_offset example_observatory"
    using c5 [THEN conjunct2, THEN conjunct1] east by (rule mp)
  have range: "- 11 \<le> hr_offset example_observatory \<and> hr_offset example_observatory \<le> 12
      \<and> 43200 \<le> 5184082800 + of_int (hr_offset example_observatory) * (3600 :: real)"
    by (simp add: off)
  have "night_of example_observatory 5184082800
      = \<lfloor>(5184082800 + of_int (hr_offset example_observatory) * 3600 - 43200) / 86400 :: real\<rfloor>"
    using c5 [THEN conjunct2, THEN conjunct2, THEN conjunct1] range by (rule mp)
  then have days: "night_of example_observatory 5184082800
      = \<lfloor>(5184082800 - 43200) / 86400 :: real\<rfloor>"
    by (simp add: off)
  have same: "night_of example_observatory (5184082800 + 7200)
      = night_of example_observatory 5184082800"
    using c5 [THEN conjunct2, THEN conjunct2, THEN conjunct2, THEN conjunct1] lon0 t midnight
    by blast
  have differ: "night_of example_observatory (5184082800 + 46800)
      \<noteq> night_of example_observatory 5184082800"
    using c5 [THEN conjunct2, THEN conjunct2, THEN conjunct2, THEN conjunct2] lon0 t noon
    by blast
  have n: "night_of example_observatory 5184082800 = 60000"
    using days by simp
  show ?thesis
    using lon0 off spec days same differ n by simp
qed

theorem C5_counterexample:
  "hr_offset western_observatory = - 6
   \<and> spec_hr_offset western_observatory = - 7
   \<and> night_of western_observatory 5184066600 = 60000
   \<and> spec_night_of western_observatory 5184066600 = 59999"
  by (simp add: hr_offset_def spec_hr_offset_def night_of_def spec_night_of_def py_int_def
      ymdhms_hour_def ymdhms_minute_def ymdhms_second_def Let_def western_observatory_def)

text \<open>
  C6. A table whose \<open>date-obs\<close> column holds times on a scale other than \<open>utc\<close> is refused
  before anything is computed: with a passband map the constructor raises the
  \<open>ValueError\<close> of the wrong scale (an \<open>IndexError\<close> when the column is empty), without
  one the \<open>AttributeError\<close> of \<open>None.copy()\<close>; no table is returned. A \<open>date-obs\<close> column
  that holds no times raises the other \<open>ValueError\<close>, and the two differ.
\<close>

theorem C6_wrong_time_scale_refused:
  assumes "data ''date-obs'' = Some (TimeColumn sc ts)" and "sc \<noteq> ''utc''"
  shows "PhotometryData_init A observatory cam data (Some pm) retain_user_computed
           = Inl (if ts = [] then IndexError else ValueError (WrongTimeScale sc))
       \<and> PhotometryData_init A observatory cam data None retain_user_computed
           = Inl AttributeError
       \<and> (\<forall>u xs. xs \<noteq> [] \<longrightarrow>
             PhotometryData_init A observatory cam (data(''date-obs'' \<mapsto> Column u xs)) (Some pm)
               retain_user_computed = Inl (ValueError NotTimeColumn))
       \<and> (\<forall>w xs. xs \<noteq> [] \<longrightarrow>
             PhotometryData_init A observatory cam (data(''date-obs'' \<mapsto> StrColumn w xs))
               (Some pm) retain_user_computed = Inl (ValueError NotTimeColumn))
       \<and> ValueError (WrongTimeScale sc) \<noteq> ValueError NotTimeColumn"
  using assms by (simp add: PhotometryData_init_def check_date_obs_def)

theorem C6_wrong_time_scale_refused_witness:
  "example_table_tai ''date-obs'' = Some (TimeColumn ''tai'' [5184082800])
   \<and> ''tai'' \<noteq> ''utc''
   \<and> [''2023-01-01T23:00:00''] \<noteq> ([] :: string list)
   \<and> PhotometryData_init example_astro example_observatory example_camera example_table_tai
       (Some []) False = Inl (ValueError (WrongTimeScale ''tai''))
   \<and> PhotometryData_init example_astro example_observatory example_camera example_table_tai
       None False = Inl AttributeError
   \<and> PhotometryData_init example_astro example_observatory example_camera
       (example_table_tai(''date-obs'' \<mapsto> StrColumn 19 [''2023-01-01T23:00:00'']))
       (Some []) False = Inl (ValueError NotTimeColumn)
   \<and> ValueError (WrongTimeScale ''tai'') \<noteq> ValueError NotTimeColumn"
proof -
  have col: "example_table_tai ''date-obs'' = Some (TimeColumn ''tai'' [5184082800])"
    by (simp add: example_table_tai_def)
  have sc: "''tai'' \<noteq> ''utc''" by simp
  have cells: "[''2023-01-01T23:00:00''] \<noteq> ([] :: string list)" by simp
  note c6 = C6_wrong_time_scale_refused [of example_table_tai "''tai''" "[5184082800]"
      example_astro example_observatory example_camera "[]" False, OF col sc]
  have scale: "PhotometryData_init example_astro example_observatory example_camera
      example_table_tai (Some []) False = Inl (ValueError (WrongTimeScale ''tai''))"
    using c6 [THEN conjunct1] by simp
  note none = c6 [THEN conjunct2, THEN conjunct1]
  note strings = c6 [THEN conjunct2, THEN conjunct2, THEN conjunct2, THEN conjunct1,
      THEN spec, THEN spec, THEN mp, OF cells]
  note differ = c6 [THEN conjunct2, THEN conjunct2, THEN conjunct2, THEN conjunct2]
  show ?thesis
    using col sc cells scale none strings differ by (intro conjI)
qed

text \<open>
  C7. \<open>find_hwhm\<close> takes the first radial bin \<open>i\<close> whose scaled intensity is below 0.5 and
  interpolates linearly between the average radius of that bin and that of the bin before
  it: the result is the radius at which the line through the two bins has intensity 0.5.
  On the profile with intensity 1.0 at radius 0, 0.6 at radius 3 and 0.4 at radius 4 the
  result is 3.5. The bin \<open>i\<close> has a predecessor (\<open>0 < i\<close>).
\<close>

theorem C7_find_hwhm_interpolates:
  assumes "length (ravg p) = length (scaled_profile p)"
    and "i < length (scaled_profile p)"
    and "0 < i"
    and "scaled_profile p ! i < 0.5"
    and "\<forall>j<i. 0.5 \<le> scaled_profile p ! j"
  shows "find_hwhm p =
           Inr (ravg p ! i
                - (scaled_profile p ! i - 0.5) / (scaled_profile p ! i - scaled_profile p ! (i - 1))
                  * (ravg p ! i - ravg p ! (i - 1)))
       \<and> (ravg p ! (i - 1) \<noteq> ravg p ! i \<longrightarrow>
            (\<exists>h. find_hwhm p = Inr h
               \<and> scaled_profile p ! (i - 1)
                   + (scaled_profile p ! i - scaled_profile p ! (i - 1))
                     / (ravg p ! i - ravg p ! (i - 1)) * (h - ravg p ! (i - 1)) = 0.5))
       \<and> find_hwhm example_profile = Inr 3.5"
proof -
  have "\<forall>j<i. \<not> scaled_profile p ! j < 0.5"
    using assms(5) by (simp add: not_less)
  with assms(2,4) have first: "first_index (\<lambda>v. v < 0.5) (scaled_profile p) = Some i"
    by (intro first_index_first) simp_all
  note formula = find_hwhm_formula [OF first assms(3) assms(1)]
  have before: "0.5 \<le> scaled_profile p ! (i - 1)"
    using assms(3,5) by simp
  have solves: "ravg p ! (i - 1) \<noteq> ravg p ! i \<Longrightarrow>
      scaled_profile p ! (i - 1)
        + (scaled_profile p ! i - scaled_profile p ! (i - 1)) / (ravg p ! i - ravg p ! (i - 1))
          * ((ravg p ! i
              - (scaled_profile p ! i - 0.5) / (scaled_profile p ! i - scaled_profile p ! (i - 1))
                * (ravg p ! i - ravg p ! (i - 1))) - ravg p ! (i - 1)) = 0.5"
    using assms(4) before by (rule interpolation_solves)
  have example: "find_hwhm example_profile = Inr 3.5"
    by (simp add: find_hwhm_def example_profile_def np_index_def)
  show ?thesis using formula solves example by blast
qed

theorem C7_find_hwhm_interpolates_witness:
  "length (ravg example_profile) = length (scaled_profile example_profile)
   \<and> (2::nat) < length (scaled_profile example_profile)
   \<and> (0::nat) < 2
   \<and> scaled_profile example_profile ! 2 < 0.5
   \<and> 0.5 \<le> scaled_profile example_profile ! 0
   \<and> 0.5 \<le> scaled_profile example_profile ! 1
   \<and> ravg example_profile ! (2 - 1) \<noteq> ravg example_profile ! 2
   \<and> find_hwhm example_profile = Inr (4 - (0.4 - 0.5) / (0.4 - 0.6) * (4 - 3))
   \<and> find_hwhm example_profile = Inr 3.5
   \<and> (0.6 :: real) + (0.4 - 0.6) / (4 - 3) * (3.5 - 3) = 0.5"
proof -
  have len: "length (ravg example_profile) = length (scaled_profile example_profile)"
    and i: "(2::nat) < length (scaled_profile example_profile)"
    and low: "scaled_profile example_profile ! 2 < 0.5"
    and radii: "ravg example_profile ! (2 - 1) \<noteq> ravg example_profile ! 2"
    by (simp_all add: example_profile_def)
  have below: "\<forall>j<2. 0.5 \<le> scaled_profile example_profile ! j"
    by (simp add: example_profile_def less_2_cases_iff)
  note c7 = C7_find_hwhm_interpolates [OF len i _ low below]
  have "find_hwhm example_profile =
      Inr (ravg example_profile ! 2
           - (scaled_profile example_profile ! 2 - 0.5)
             / (scaled_profile example_profile ! 2 - scaled_profile example_profile ! (2 - 1))
             * (ravg example_profile ! 2 - ravg example_profile ! (2 - 1)))"
    by (rule c7 [THEN conjunct1]) simp
  then have result: "find_hwhm example_profile = Inr (4 - (0.4 - 0.5) / (0.4 - 0.6) * (4 - 3))"
    by (simp add: example_profile_def)
  have "\<exists>h. find_hwhm example_profile = Inr h
      \<and> scaled_profile example_profile ! (2 - 1)
          + (scaled_profile example_profile ! 2 - scaled_profile example_profile ! (2 - 1))
            / (ravg example_profile ! 2 - ravg example_profile ! (2 - 1))
            * (h - ravg example_profile ! (2 - 1)) = 0.5"
    using c7 [THEN conjunct2, THEN conjunct1] radii by simp
  then have solves: "(0.6 :: real) + (0.4 - 0.6) / (4 - 3) * (3.5 - 3) = 0.5"
    using result by (simp add: example_profile_def)
  have half: "find_hwhm example_profile = Inr 3.5"
    using result by simp
  show ?thesis
    using len i low radii result half solves by (simp add: example_profile_def)
qed

text \<open>
  C8, as the code has it. The recommended aperture radius after a click is
  \<open>round(1.5 * 2 * HWHM)\<close>, the integer nearest to three times the half width, computed
  from the half width itself and not from the rounded \<open>FWHM\<close>. It equals
  \<open>round(1.5 * FWHM)\<close> with \<open>FWHM = round(2 * HWHM)\<close> whenever \<open>2 * HWHM\<close> is a whole number,
  and it is never more than one pixel away from it.
\<close>

theorem C8_aperture_radius_from_hwhm:
  assumes "HWHM p = Inr h"
  shows "\<exists>a a'. aperture_radius p = Inr a \<and> spec_aperture_radius p = Inr a'
           \<and> a = np_round (3 * h)
           \<and> \<bar>of_int a - 3 * h\<bar> \<le> 1 / 2
           \<and> (2 * h \<in> \<int> \<longrightarrow> a' = a)
           \<and> \<bar>a - a'\<bar> \<le> 1"
proof -
  define a where "a = np_round (3 * h)"
  define a' where "a' = np_round (1.5 * of_int (np_round (2 * h)))"
  have ra: "aperture_radius p = Inr a"
    using assms by (simp add: aperture_radius_def a_def)
  have rs: "spec_aperture_radius p = Inr a'"
    using assms by (simp add: spec_aperture_radius_def FWHM_def a'_def)
  have near: "\<bar>of_int a - 3 * h\<bar> \<le> 1 / 2"
    unfolding a_def by (rule np_round_near)
  have whole: "a' = a" if "2 * h \<in> \<int>"
  proof -
    from that obtain n :: int where n: "2 * h = of_int n" by (auto elim: Ints_cases)
    have "np_round (2 * h) = n" unfolding n by (rule np_round_of_int)
    moreover have "1.5 * (of_int n :: real) = 3 * h" using n by simp
    ultimately show ?thesis by (simp add: a_def a'_def)
  qed
  have "\<bar>of_int (np_round (2 * h)) - 2 * h\<bar> \<le> 1 / 2" by (rule np_round_near)
  then have "\<bar>3 * h - 1.5 * of_int (np_round (2 * h))\<bar> \<le> 3 / 4" by linarith
  then have close: "\<bar>a - a'\<bar> \<le> 1"
    unfolding a_def a'_def by (rule np_round_close)
  show ?thesis using ra rs near whole close a_def by blast
qed

theorem C8_aperture_radius_from_hwhm_witness:
  "HWHM example_profile = Inr 3.5
   \<and> aperture_radius example_profile = Inr (np_round (3 * 3.5))
   \<and> spec_aperture_radius example_profile = Inr (np_round (3 * 3.5))
   \<and> np_round (3 * 3.5) = 10"
proof -
  have h: "HWHM example_profile = Inr 3.5"
    by (simp add: HWHM_def find_hwhm_def example_profile_def np_index_def)
  have whole: "2 * (3.5 :: real) \<in> \<int>"
  proof -
    have "2 * (3.5 :: real) = of_int 7" by simp
    then show ?thesis by (simp only: Ints_of_int)
  qed
  have "np_round (3 * 3.5) = 10" by (simp add: np_round_def Let_def)
  with C8_aperture_radius_from_hwhm [OF h] whole h show ?thesis by auto
qed

theorem C8_counterexample:
  "aperture_radius steep_profile = Inr 10 \<and> spec_aperture_radius steep_profile = Inr 9"
proof -
  have h: "HWHM steep_profile = Inr 3.2"
    by (simp add: HWHM_def find_hwhm_def steep_profile_def np_index_def)
  have "np_round (1.5 * 2 * 3.2) = 10" by (simp add: np_round_def Let_def)
  moreover have "np_round (2 * 3.2) = 6" by (simp add: np_round_def Let_def)
  moreover have "np_round (1.5 * of_int 6) = 9" by (simp add: np_round_def Let_def)
  ultimately show ?thesis
    using h by (simp add: aperture_radius_def spec_aperture_radius_def FWHM_def)
qed

text \<open>
  C9, as the code has it. The validation of \<open>BaseEnhancedTable\<close> is idempotent: a table it
  accepts is returned as it is and is accepted again. A table built by \<open>PhotometryData\<close>
  holds the computed columns, so a second construction from it with the default
  \<open>retain_user_computed=False\<close> raises the \<open>ValueError\<close> of the existing column
  \<open>aperture_area\<close> (and the \<open>AttributeError\<close> with the default \<open>passband_map=None\<close>). With
  \<open>retain_user_computed=True\<close> and the same observatory, camera and passband map, the
  second construction succeeds and gives the same instance, provided that the passband
  map is empty, or that \<open>passband\<close> is a string column and no new passband name, cut to the
  width of that column, is also a key of the map: the names are written into a column of
  fixed width, and \<open>cut_name_renamed_again\<close> shows a cut name that is renamed once more.
\<close>

theorem C9_second_construction:
  "(BaseEnhancedTable_init description t = Inr t'
      \<longrightarrow> t' = t \<and> BaseEnhancedTable_init description t' = Inr t')
   \<and> (PhotometryData_init A observatory cam data (Some pm) retain_user_computed = Inr p
      \<longrightarrow> PhotometryData_init A observatory cam (pd_table p) (Some pm) False
            = Inl (ValueError (ComputedExists ''aperture_area''))
        \<and> PhotometryData_init A observatory cam (pd_table p) None retain_user_computed
            = Inl AttributeError
        \<and> ((pm = [] \<or> (\<exists>w xs. data ''passband'' = Some (StrColumn w xs)
               \<and> take w ` snd ` set pm \<inter> fst ` set pm = {}))
            \<longrightarrow> PhotometryData_init A observatory cam (pd_table p) (Some pm) True = Inr p))"
proof -
  have base: "BaseEnhancedTable_init description t = Inr t'
      \<longrightarrow> t' = t \<and> BaseEnhancedTable_init description t' = Inr t'"
    by (auto simp: BaseEnhancedTable_init_def split: sum.splits)
  have none: "PhotometryData_init A observatory cam (pd_table p) None retain_user_computed
      = Inl AttributeError"
    by (simp add: PhotometryData_init_def)
  have second: "PhotometryData_init A observatory cam data (Some pm) retain_user_computed = Inr p
      \<longrightarrow> PhotometryData_init A observatory cam (pd_table p) (Some pm) False
            = Inl (ValueError (ComputedExists ''aperture_area''))
        \<and> PhotometryData_init A observatory cam (pd_table p) None retain_user_computed
            = Inl AttributeError
        \<and> ((pm = [] \<or> (\<exists>w xs. data ''passband'' = Some (StrColumn w xs)
               \<and> take w ` snd ` set pm \<inter> fst ` set pm = {}))
            \<longrightarrow> PhotometryData_init A observatory cam (pd_table p) (Some pm) True = Inr p)"
  proof (intro impI conjI)
    assume first: "PhotometryData_init A observatory cam data (Some pm) retain_user_computed
        = Inr p"
    show "PhotometryData_init A observatory cam (pd_table p) (Some pm) False
        = Inl (ValueError (ComputedExists ''aperture_area''))"
      using first by (rule again_default)
    show "PhotometryData_init A observatory cam (pd_table p) None retain_user_computed
        = Inl AttributeError"
      by (rule none)
    assume "pm = [] \<or> (\<exists>w xs. data ''passband'' = Some (StrColumn w xs)
        \<and> take w ` snd ` set pm \<inter> fst ` set pm = {})"
    with first show "PhotometryData_init A observatory cam (pd_table p) (Some pm) True = Inr p"
      by (rule again_retained)
  qed
  from base second show ?thesis by (rule conjI)
qed

theorem C9_second_construction_witness:
  "BaseEnhancedTable_init phot_descript example_table = Inr example_table
   \<and> PhotometryData_init example_astro example_observatory example_camera example_table
       (Some example_passband_map) False = Inr example_result_renamed
   \<and> example_table ''passband'' = Some (StrColumn 1 [''B''])
   \<and> take 1 ` snd ` set example_passband_map \<inter> fst ` set example_passband_map = {}
   \<and> PhotometryData_init example_astro example_observatory example_camera
       (pd_table example_result_renamed) (Some example_passband_map) True
       = Inr example_result_renamed
   \<and> PhotometryData_init example_astro example_observatory example_camera
       (pd_table example_result_renamed) (Some example_passband_map) False
       = Inl (ValueError (ComputedExists ''aperture_area''))"
proof -
  have column: "example_table ''passband'' = Some (StrColumn 1 [''B''])"
    by (simp add: example_table_def)
  have cut: "take 1 ` snd ` set example_passband_map \<inter> fst ` set example_passband_map = {}"
    by (simp add: example_passband_map_def)
  have fits: "example_passband_map = []
      \<or> (\<exists>w xs. example_table ''passband'' = Some (StrColumn w xs)
           \<and> take w ` snd ` set example_passband_map \<inter> fst ` set example_passband_map = {})"
    using cut column by blast
  note c9 = C9_second_construction [of phot_descript example_table example_table
      example_astro example_observatory example_camera example_table example_passband_map
      False example_result_renamed]
  note base = c9 [THEN conjunct1, THEN mp, OF example_checks(3), THEN conjunct2]
  note second = c9 [THEN conjunct2, THEN mp, OF example_renamed_construction]
  note refused = second [THEN conjunct1]
  note same = second [THEN conjunct2, THEN conjunct2, THEN mp, OF fits]
  show ?thesis
    using base example_renamed_construction column cut same refused by (intro conjI)
qed

theorem C9_counterexample:
  "PhotometryData_init example_astro example_observatory example_camera example_table
     (Some []) False = Inr example_result
   \<and> PhotometryData_again example_astro example_observatory example_camera example_table
       (Some []) False = Inl (ValueError (ComputedExists ''aperture_area''))"
proof -
  have "PhotometryData_init example_astro example_observatory example_camera
      (pd_table example_result) (Some []) False
      = Inl (ValueError (ComputedExists ''aperture_area''))"
    using example_construction by (rule again_default)
  then show ?thesis
    using example_construction by (simp add: PhotometryData_again_def)
qed

text \<open>
  C10. \<open>PhotometryData\<close> cannot be constructed with the default \<open>passband_map=None\<close>: the
  constructor calls \<open>passband_map.copy()\<close> before any validation, so every call without a
  passband map raises \<open>AttributeError\<close>, whatever the table and the other arguments.
\<close>

theorem C10_no_passband_map_raises:
  "PhotometryData_init A observatory cam data None retain_user_computed = Inl AttributeError"
  by (simp add: PhotometryData_init_def)

end
